theory Spec2Isabelle
  imports Main
begin

section \<open>Python strings\<close>

text \<open>
  A Python \<open>str\<close> is modelled as a \<open>string\<close> whose characters are the code points
  below 256.  \<open>str.isspace\<close>, \<open>str.rstrip()\<close> and the regular expression class
  \<open>\s\<close> agree on the whitespace characters of that range.
\<close>

definition newline :: char where
  "newline = CHR 0x0A"

definition is_space :: "char \<Rightarrow> bool" where
  "is_space c = (c \<in> set [CHR 0x09, CHR 0x0A, CHR 0x0B, CHR 0x0C, CHR 0x0D,
     CHR 0x1C, CHR 0x1D, CHR 0x1E, CHR 0x1F, CHR 0x20, CHR 0x85, CHR 0xA0])"

definition rstrip :: "string \<Rightarrow> string" where
  "rstrip s = rev (dropWhile is_space (rev s))"

definition rstrip_chars :: "string \<Rightarrow> string \<Rightarrow> string" where
  "rstrip_chars cs s = rev (dropWhile (\<lambda>c. c \<in> set cs) (rev s))"

definition lstrip_chars :: "string \<Rightarrow> string \<Rightarrow> string" where
  "lstrip_chars cs s = dropWhile (\<lambda>c. c \<in> set cs) s"

definition startswith :: "string \<Rightarrow> string \<Rightarrow> bool" where
  "startswith s p = (take (length p) s = p)"

definition endswith :: "string \<Rightarrow> string \<Rightarrow> bool" where
  "endswith s p = (length p \<le> length s \<and> drop (length s - length p) s = p)"

text \<open>\<open>s.split(sep)\<close> for a non-empty separator: cut at each occurrence, left to right.\<close>

fun split_acc :: "string \<Rightarrow> string \<Rightarrow> string \<Rightarrow> string list" where
  "split_acc sep acc [] = [rev acc]"
| "split_acc sep acc (c # cs) =
     (if sep \<noteq> [] \<and> take (length sep) (c # cs) = sep
      then rev acc # split_acc sep [] (drop (length sep) (c # cs))
      else split_acc sep (c # acc) cs)"

definition split :: "string \<Rightarrow> string \<Rightarrow> string list" where
  "split s sep = split_acc sep [] s"

text \<open>\<open>html.escape(s, quote=True)\<close>.\<close>

fun html_escape :: "string \<Rightarrow> string" where
  "html_escape [] = []"
| "html_escape (c # cs) =
     (if c = CHR ''&'' then ''&amp;''
      else if c = CHR ''<'' then ''&lt;''
      else if c = CHR ''>'' then ''&gt;''
      else if c = CHR 0x22 then ''&quot;''
      else if c = CHR 0x27 then ''&#x27;''
      else [c]) @ html_escape cs"

section \<open>Regular expressions\<close>

text \<open>
  The patterns of the program are kept as data and run by one backtracking matcher that
  follows the priorities of Python's \<open>re\<close>: alternatives left to right, a greedy
  quantifier longest first, a lazy one shortest first.  The matcher returns every way a
  pattern can match from a position, best first; the match Python reports is the first.
\<close>

datatype cc = CChr char | CRange char char | CSpace

datatype rx =
    Eps
  | Bol | Eol
  | BolM | EolM
  | Chr char
  | Any
  | In "cc list"
  | NotIn "cc list"
  | Seq rx rx
  | Alt rx rx
  | Star bool rx
  | Opt bool rx
  | Grp string rx

record mstate =
  consumed :: string
  rest :: string
  groups :: "(string \<times> string option) list"

type_synonym match = "(string \<times> string option) list"

fun cc_has :: "cc \<Rightarrow> char \<Rightarrow> bool" where
  "cc_has (CChr d) c = (c = d)"
| "cc_has (CRange lo hi) c = ((of_char lo :: nat) \<le> of_char c \<and> (of_char c :: nat) \<le> of_char hi)"
| "cc_has CSpace c = is_space c"

definition step_char :: "(char \<Rightarrow> bool) \<Rightarrow> mstate \<Rightarrow> mstate list" where
  "step_char p st =
     (case rest st of
        [] \<Rightarrow> []
      | c # cs \<Rightarrow> if p c then [st\<lparr>consumed := c # consumed st, rest := cs\<rparr>] else [])"

text \<open>
  A quantified pattern repeats while each round consumes input; the counter is the
  length of the remaining input, which bounds the number of such rounds.
\<close>

fun star_ms :: "bool \<Rightarrow> (mstate \<Rightarrow> mstate list) \<Rightarrow> nat \<Rightarrow> mstate \<Rightarrow> mstate list" where
  "star_ms g f 0 st = [st]"
| "star_ms g f (Suc n) st =
     (let more = concat (map (star_ms g f n)
                   (filter (\<lambda>st'. length (rest st') < length (rest st)) (f st)))
      in if g then more @ [st] else st # more)"

definition bind_group :: "string \<Rightarrow> mstate \<Rightarrow> mstate \<Rightarrow> mstate" where
  "bind_group n st st' =
     st'\<lparr>groups := (n, Some (take (length (rest st) - length (rest st')) (rest st)))
                     # filter (\<lambda>p. fst p \<noteq> n) (groups st')\<rparr>"

primrec ms :: "rx \<Rightarrow> mstate \<Rightarrow> mstate list" where
  "ms Eps = (\<lambda>st. [st])"
| "ms Bol = (\<lambda>st. if consumed st = [] then [st] else [])"
| "ms Eol = (\<lambda>st. if rest st = [] \<or> rest st = [newline] then [st] else [])"
| "ms BolM = (\<lambda>st. if consumed st = [] \<or> hd (consumed st) = newline then [st] else [])"
| "ms EolM = (\<lambda>st. if rest st = [] \<or> hd (rest st) = newline then [st] else [])"
| "ms (Chr d) = step_char (\<lambda>c. c = d)"
| "ms Any = step_char (\<lambda>c. c \<noteq> newline)"
| "ms (In cs) = step_char (\<lambda>c. \<exists>x \<in> set cs. cc_has x c)"
| "ms (NotIn cs) = step_char (\<lambda>c. \<not> (\<exists>x \<in> set cs. cc_has x c))"
| "ms (Seq a b) = (\<lambda>st. concat (map (ms b) (ms a st)))"
| "ms (Alt a b) = (\<lambda>st. ms a st @ ms b st)"
| "ms (Star g r) = (\<lambda>st. star_ms g (ms r) (length (rest st)) st)"
| "ms (Opt g r) = (\<lambda>st. if g then ms r st @ [st] else st # ms r st)"
| "ms (Grp n r) = (\<lambda>st. map (bind_group n st) (ms r st))"

primrec group_names :: "rx \<Rightarrow> string list" where
  "group_names Eps = []"
| "group_names Bol = []"
| "group_names Eol = []"
| "group_names BolM = []"
| "group_names EolM = []"
| "group_names (Chr d) = []"
| "group_names Any = []"
| "group_names (In cs) = []"
| "group_names (NotIn cs) = []"
| "group_names (Seq a b) = group_names a @ group_names b"
| "group_names (Alt a b) = group_names a @ group_names b"
| "group_names (Star g r) = group_names r"
| "group_names (Opt g r) = group_names r"
| "group_names (Grp n r) = n # group_names r"

text \<open>
  \<open>pattern.match(s)\<close> tries position 0 only; \<open>pattern.search(s)\<close> tries every position
  from the left.  A group that took no part in the match is \<open>None\<close>.
\<close>

definition match_at :: "rx \<Rightarrow> string \<Rightarrow> string \<Rightarrow> match option" where
  "match_at r bef s =
     (case ms r \<lparr>consumed = bef, rest = s, groups = map (\<lambda>n. (n, None)) (group_names r)\<rparr> of
        [] \<Rightarrow> None
      | st # _ \<Rightarrow> Some (groups st))"

definition rx_match :: "rx \<Rightarrow> string \<Rightarrow> match option" where
  "rx_match r s = match_at r [] s"

fun search_from :: "rx \<Rightarrow> string \<Rightarrow> string \<Rightarrow> match option" where
  "search_from r bef [] = match_at r bef []"
| "search_from r bef (c # cs) =
     (case match_at r bef (c # cs) of
        Some m \<Rightarrow> Some m
      | None \<Rightarrow> search_from r (c # bef) cs)"

definition search :: "rx \<Rightarrow> string \<Rightarrow> match option" where
  "search r s = search_from r [] s"

text \<open>
  \<open>md.group(name)\<close> for a group that the pattern has and that always takes part in a
  match; \<open>group_opt\<close> for one that may be \<open>None\<close>.
\<close>

definition group_opt :: "match \<Rightarrow> string \<Rightarrow> string option" where
  "group_opt m n = (case map_of m n of Some v \<Rightarrow> v | None \<Rightarrow> None)"

definition group :: "match \<Rightarrow> string \<Rightarrow> string" where
  "group m n = (case group_opt m n of Some s \<Rightarrow> s | None \<Rightarrow> [])"

definition has_group :: "match \<Rightarrow> string \<Rightarrow> bool" where
  "has_group m n = (map_of m n \<noteq> None)"

subsection \<open>Pattern notation\<close>

fun seqs :: "rx list \<Rightarrow> rx" where
  "seqs [] = Eps"
| "seqs [r] = r"
| "seqs (r # rs) = Seq r (seqs rs)"

definition lit :: "string \<Rightarrow> rx" where
  "lit s = seqs (map Chr s)"

definition plus :: "bool \<Rightarrow> rx \<Rightarrow> rx" where
  "plus g r = Seq r (Star g r)"

definition ws :: rx where
  "ws = In [CSpace]"

definition nonws :: rx where
  "nonws = NotIn [CSpace]"

definition br_group :: rx where
  "br_group = Opt True (Grp ''br'' (lit '' _''))"

subsection \<open>The block patterns\<close>

definition RX_BLOCKQUOTE :: rx where
  "RX_BLOCKQUOTE = seqs [Bol, Grp ''greater_than_signs'' (plus True (Chr CHR ''>'')),
     Star True ws, Grp ''content'' (Star False Any), br_group, Eol]"

definition RX_CODE_START :: rx where
  "RX_CODE_START = seqs [Bol, Grp ''indent'' (Star True ws),
     Grp ''raw_tag'' (seqs [lit ''[[code'',
       Opt True (Grp ''3'' (seqs [plus True ws, lit ''type='', Chr (CHR 0x22),
         Grp ''type'' (Star False Any), Chr (CHR 0x22), Star True ws])),
       lit '']]'']),
     Grp ''content'' (Star True Any), Eol]"

definition RX_CODE_END :: rx where
  "RX_CODE_END = seqs [Bol, lit ''[[/code]]'', Eol]"

definition RX_CODE_CONTENT :: rx where
  "RX_CODE_CONTENT = seqs [Bol, Grp ''content'' (Star False Any), Eol]"

definition RX_MATH_START :: rx where
  "RX_MATH_START = seqs [Bol, Grp ''indent'' (Star True ws),
     Grp ''raw_tag'' (lit ''[[math]]''), Grp ''content'' (Star True Any), Eol]"

definition RX_MATH_END :: rx where
  "RX_MATH_END = seqs [Bol, lit ''[[/math]]'', Eol]"

definition RX_MATH_CONTENT :: rx where
  "RX_MATH_CONTENT = seqs [Bol, Grp ''content'' (Star False Any), Eol]"

definition RX_DIV_START :: rx where
  "RX_DIV_START = seqs [Bol, Grp ''indent'' (Star True ws),
     Grp ''raw_tag'' (seqs [lit ''[[div'', Grp ''attributes'' (Star True Any), lit '']]'']),
     Eol]"

definition RX_DIV_END :: rx where
  "RX_DIV_END = seqs [Bol, lit ''[[/div]]'', Eol]"

definition RX_UL :: rx where
  "RX_UL = seqs [Bol, Grp ''indent'' (Star True ws), Grp ''raw_tag'' (Chr CHR ''*''),
     plus True ws, Grp ''content'' (Seq nonws (Star False Any)), br_group, Eol]"

definition RX_OL :: rx where
  "RX_OL = seqs [Bol, Grp ''indent'' (Star True ws), Grp ''raw_tag'' (Chr CHR ''#''),
     plus True ws, Grp ''content'' (Seq nonws (Star False Any)), br_group, Eol]"

definition RX_TABLE :: rx where
  "RX_TABLE = seqs [Bol, Grp ''indent'' (Star True ws),
     Grp ''content'' (Seq (lit ''||'') (Star False Any)), br_group, Eol]"

text \<open>\<open>\+{1,6}\<close>: one plus sign, then up to five more, as many as possible.\<close>

definition RX_HN :: rx where
  "RX_HN = seqs [Bol, Grp ''indent'' (Star True ws),
     Grp ''plus_signs'' (Seq (Chr CHR ''+'') (Opt True (Seq (Chr CHR ''+'')
       (Opt True (Seq (Chr CHR ''+'') (Opt True (Seq (Chr CHR ''+'')
       (Opt True (Seq (Chr CHR ''+'') (Opt True (Chr CHR ''+''))))))))))),
     plus True ws, Grp ''content'' (Seq nonws (Star False Any)), br_group, Eol]"

definition RX_HR :: rx where
  "RX_HR = seqs [Bol, Grp ''indent'' (Star True ws), lit ''----'', Grp ''content'' Eps,
     br_group, Eol]"

definition RX_EMPTY :: rx where
  "RX_EMPTY = seqs [Bol, Star True ws, Grp ''content'' Eps, br_group, Eol]"

definition RX_P :: rx where
  "RX_P = seqs [Bol, Star True ws, Grp ''content'' (Star False Any), br_group, Eol]"

subsection \<open>The inline patterns\<close>

definition alnum :: "cc list" where
  "alnum = [CRange CHR ''a'' CHR ''z'', CRange CHR ''A'' CHR ''Z'', CRange CHR ''0'' CHR ''9'']"

definition RX_FULL_URL :: rx where
  "RX_FULL_URL = seqs [Bol, Grp ''scheme'' (plus True (In [CRange CHR ''a'' CHR ''z''])),
     Chr CHR '':'', Grp ''rest'' (Star True Any), Eol]"

definition RX_WHITESPACE :: rx where
  "RX_WHITESPACE = Grp ''1'' (plus True ws)"

definition RX_SPAN :: rx where
  "RX_SPAN = seqs [Bol, lit ''[[span '', Grp ''1'' (plus True (NotIn [CChr CHR '']''])),
     lit '']]'', Eol]"

definition RX_SIZE :: rx where
  "RX_SIZE = seqs [Bol, lit ''[[size '', Grp ''1'' (plus True (NotIn [CChr CHR '']''])),
     lit '']]'', Eol]"

definition hexdigit :: rx where
  "hexdigit = In [CRange CHR ''a'' CHR ''f'', CRange CHR ''A'' CHR ''F'', CRange CHR ''0'' CHR ''9'']"

definition RX_RGB :: rx where
  "RX_RGB = seqs [Bol, hexdigit, hexdigit, hexdigit, hexdigit, hexdigit, hexdigit, Eol]"

definition RX_PARSE_TRIPLE_BRACKET :: rx where
  "RX_PARSE_TRIPLE_BRACKET = seqs [Bol, lit ''[[['',
     Grp ''href'' (Star True (NotIn [CChr CHR ''|''])),
     Opt True (Grp ''2'' (Seq (Chr CHR ''|'') (Grp ''name'' (plus True Any)))),
     lit '']]]'', Eol]"

definition RX_PARSE_DOUBLE_BRACKET :: rx where
  "RX_PARSE_DOUBLE_BRACKET = seqs [Bol, lit ''[[#'', plus True ws,
     Grp ''anchor'' (plus True Any), lit '']]'', Eol]"

definition RX_PARSE_SINGLE_BRACKET :: rx where
  "RX_PARSE_SINGLE_BRACKET = seqs [Bol, Chr CHR ''['', Grp ''href'' (plus True nonws),
     plus True ws, Grp ''name'' (plus True Any), Chr CHR '']'', Eol]"

definition not_bracket_bar :: rx where
  "not_bracket_bar = NotIn [CChr CHR '']'', CChr CHR ''|'']"

definition RX_TRIPLE_BRACKET :: rx where
  "RX_TRIPLE_BRACKET = seqs [
     Grp ''token'' (seqs [Bol, lit ''[[['', plus True not_bracket_bar,
       Opt True (Grp ''2'' (Seq (Chr CHR ''|'') (plus True not_bracket_bar))), lit '']]]'']),
     Grp ''text'' (Star True Any), Eol]"

definition RX_DOUBLE_BRACKET :: rx where
  "RX_DOUBLE_BRACKET = seqs [Bol,
     Grp ''token'' (seqs [lit ''[['', plus True (NotIn [CChr CHR '']'']), lit '']]'']),
     Grp ''text'' (Star True Any), Eol]"

definition RX_SINGLE_BRACKET :: rx where
  "RX_SINGLE_BRACKET = seqs [Bol,
     Grp ''token'' (seqs [Chr CHR ''['',
       Grp ''head'' (plus True (NotIn [CChr CHR '']'', CSpace])),
       Star True (NotIn [CChr CHR '']'']), Chr CHR '']'']),
     Grp ''text'' (Star True Any), Eol]"

definition RX_ESCAPE_CHAR :: rx where
  "RX_ESCAPE_CHAR = Alt (Chr CHR ''@'') (Alt (Chr CHR ''<'') (Chr CHR ''>''))"

definition RX_DOUBLED_CHAR :: rx where
  "RX_DOUBLED_CHAR = seqs [Bol, Grp ''1''
     (Alt (lit ''//'') (Alt (lit ''**'') (Alt (lit ''{{'') (Alt (lit ''}}'')
     (Alt (lit ''--'') (Alt (lit ''__'') (Alt (lit '',,'') (Alt (lit ''^^'') (lit ''||'')))))))))]"

definition RX_COLOR_HEAD :: rx where
  "RX_COLOR_HEAD = seqs [Bol,
     Grp ''token'' (seqs [lit ''##'', In [CRange CHR ''a'' CHR ''z'', CRange CHR ''A'' CHR ''Z''],
       Star True (In (alnum @ [CChr CHR '' ''])), Chr CHR ''|'']),
     Grp ''text'' (Star True Any), Eol]"

definition RX_LEAD_WHITESPACE :: rx where
  "RX_LEAD_WHITESPACE = seqs [Bol, Grp ''token'' (plus True ws), Grp ''text'' (Star True Any), Eol]"

definition RX_URL_FRAGMENT :: rx where
  "RX_URL_FRAGMENT = seqs [Bol, Chr CHR ''#'', In alnum,
     Star True (In (alnum @ [CChr CHR ''-'', CChr CHR ''_''])), Eol]"

definition url_body :: "cc list" where
  "url_body = alnum @ map CChr ''-._~:/#&?=+,;''"

definition url_last :: "cc list" where
  "url_last = alnum @ map CChr ''-_~/#&?=+''"

definition RX_URL :: rx where
  "RX_URL = seqs [Bol,
     Grp ''token'' (seqs [lit ''http'', Opt True (Chr CHR ''s''), lit ''://'',
       Star True (In url_body), In url_last]),
     Grp ''text'' (Star True Any), Eol]"

definition RX_IMAGE :: rx where
  "RX_IMAGE = seqs [Bol, lit ''[['', Grp ''alignment'' (Opt True (Chr CHR ''='')), lit ''image'',
     plus True ws, Grp ''src'' (plus True nonws), Star True ws,
     Grp ''attrs'' (Star True Any), lit '']]'', Eol]"

definition RX_IMAGE_ATTR :: rx where
  "RX_IMAGE_ATTR = seqs [Bol, Star True ws,
     Grp ''attr'' (plus True (NotIn [CChr CHR '' '', CChr CHR ''=''])),
     Star True ws, Chr CHR ''='', Star True ws, Chr (CHR 0x22),
     Grp ''value'' (Star True (NotIn [CChr (CHR 0x22)])), Chr (CHR 0x22),
     Star True ws, Grp ''rest'' (Star True Any), Eol]"

definition RX_DIV_ATTR :: rx where
  "RX_DIV_ATTR = seqs [Bol, Star True ws,
     Grp ''name'' (plus True (In [CRange CHR ''a'' CHR ''z'', CRange CHR ''0'' CHR ''9'',
       CChr CHR ''-''])),
     Chr CHR ''='', Chr (CHR 0x22), Grp ''value'' (Star False Any), Chr (CHR 0x22),
     Grp ''rest'' (Star True Any), Eol]"

definition RX_FULL_ROW :: rx where
  "RX_FULL_ROW = seqs [Bol, lit ''||'', Grp ''row'' (Star True Any), lit ''||'', Eol]"

definition RX_START_ROW :: rx where
  "RX_START_ROW = seqs [Bol, lit ''||'', Grp ''row'' (Star True Any), Eol]"

definition RX_END_ROW :: rx where
  "RX_END_ROW = seqs [Bol, Grp ''row'' (Star True Any), lit ''||'', Eol]"

definition RX_TAGGED_CELL :: rx where
  "RX_TAGGED_CELL = seqs [Bol,
     Grp ''tag'' (Alt (Chr CHR ''~'') (Alt (Chr CHR ''<'') (Alt (Chr CHR ''='') (Chr CHR ''>'')))),
     plus True ws, Grp ''content'' (Star True Any), Eol]"

text \<open>Compiled with \<open>re.M\<close>: \<open>^\<close> and \<open>$\<close> match at every line boundary.\<close>

definition RX_EMPTY_PARAGRAPH :: rx where
  "RX_EMPTY_PARAGRAPH = seqs [BolM, Star True (Grp ''1'' (Alt (lit ''<br />'') ws)), EolM]"

definition RX_BLANK_LINE :: rx where
  "RX_BLANK_LINE = seqs [Bol, Star True ws, Eol]"

section \<open>Inline lexer\<close>

definition flush :: "string \<Rightarrow> string list \<Rightarrow> string list" where
  "flush prefix tokens = (if prefix \<noteq> [] then tokens @ [prefix] else tokens)"

text \<open>
  One round of the loop of \<open>str_lex\<close> that ends in \<open>continue\<close>: the new
  \<open>tokens\<close>, \<open>prefix\<close> and \<open>text\<close> (\<open>prefix_and_text\<close> is set to the same text and
  \<open>text_i\<close> to 0).  \<open>None\<close> when no rule fires and the loop moves one character on.
  The rules for the comment markers, the escape characters and a bare URL append their
  token without flushing \<open>prefix\<close>, as the source does.
\<close>

definition lex_rule_tail :: "string list \<Rightarrow> string \<Rightarrow> string \<Rightarrow> (string list \<times> string \<times> string) option" where
  "lex_rule_tail tokens prefix text =
     (if startswith text ''##'' then
        (case search RX_COLOR_HEAD text of
           Some md \<Rightarrow> Some (flush prefix tokens @ [group md ''token''], [], group md ''text'')
         | None \<Rightarrow> Some (flush prefix tokens @ [take 2 text], [], drop 2 text))
      else case search RX_LEAD_WHITESPACE text of
        Some md \<Rightarrow> Some (flush prefix tokens @ [group md ''token''], [], group md ''text'')
      | None \<Rightarrow>
      if startswith text ''--]'' then Some (tokens @ [''--]''], prefix, drop 3 text)
      else if search RX_ESCAPE_CHAR text \<noteq> None then Some (tokens @ [take 1 text], prefix, drop 1 text)
      else if search RX_DOUBLED_CHAR text \<noteq> None
        then Some (flush prefix tokens @ [take 2 text], [], drop 2 text)
      else if startswith text ''http'' then
        (case search RX_URL text of
           Some md \<Rightarrow> Some (tokens @ [group md ''token''], prefix, group md ''text'')
         | None \<Rightarrow> None)
      else None)"

definition lex_rule :: "string list \<Rightarrow> string \<Rightarrow> string \<Rightarrow> (string list \<times> string \<times> string) option" where
  "lex_rule tokens prefix text =
     (if startswith text ''['' then
        (if startswith text ''[!--'' then Some (tokens @ [''[!--''], prefix, drop 4 text)
         else case search RX_TRIPLE_BRACKET text of
           Some md \<Rightarrow> Some (flush prefix tokens @ [group md ''token''], [], group md ''text'')
         | None \<Rightarrow>
         (case search RX_DOUBLE_BRACKET text of
           Some md \<Rightarrow> Some (flush prefix tokens @ [group md ''token''], [], group md ''text'')
         | None \<Rightarrow>
         (case search RX_SINGLE_BRACKET text of
           Some md \<Rightarrow>
             if search RX_URL (group md ''head'') \<noteq> None
                \<or> search RX_URL_FRAGMENT (group md ''head'') \<noteq> None
             then Some (flush prefix tokens @ [group md ''token''], [], group md ''text'')
             else lex_rule_tail tokens prefix text
         | None \<Rightarrow> lex_rule_tail tokens prefix text)))
      else lex_rule_tail tokens prefix text)"

text \<open>
  The loop \<open>while text:\<close>.  Every round shortens \<open>text\<close>, so the length of the text
  given to \<open>str_lex\<close> bounds the number of rounds; the first argument counts them down.
\<close>

fun str_lex_loop :: "nat \<Rightarrow> string list \<Rightarrow> string \<Rightarrow> string \<Rightarrow> nat \<Rightarrow> string \<Rightarrow> string list" where
  "str_lex_loop 0 tokens prefix_and_text prefix text_i text = flush prefix tokens"
| "str_lex_loop (Suc n) tokens prefix_and_text prefix text_i text =
     (if text = [] then flush prefix tokens
      else case lex_rule tokens prefix text of
        Some (tokens', prefix', text') \<Rightarrow> str_lex_loop n tokens' text' prefix' 0 text'
      | None \<Rightarrow>
          str_lex_loop n tokens prefix_and_text
            (take (text_i + 1) prefix_and_text) (text_i + 1) (drop (text_i + 1) prefix_and_text))"

definition str_lex :: "string \<Rightarrow> string list" where
  "str_lex text = str_lex_loop (length text) [] text [] 0 text"

datatype token =
    TStr string
  | LITERAL_START_TOKEN
  | LITERAL_END_TOKEN
  | HTML_ENTITY_LITERAL_START_TOKEN
  | HTML_ENTITY_LITERAL_END_TOKEN

fun count_literal_escapes_loop :: "string \<Rightarrow> int \<Rightarrow> string list \<Rightarrow> int" where
  "count_literal_escapes_loop prev_s literal_cnt [] = literal_cnt"
| "count_literal_escapes_loop prev_s literal_cnt (s # str_tokens) =
     (if prev_s @ s = ''@@'' then count_literal_escapes_loop [] (literal_cnt + 1) str_tokens
      else count_literal_escapes_loop s literal_cnt str_tokens)"

definition count_literal_escapes :: "string list \<Rightarrow> int" where
  "count_literal_escapes str_tokens = count_literal_escapes_loop [] 0 str_tokens"

record token_lex_state =
  last_idx :: int
  last_html_entity_idx :: int
  prev_s :: string
  tokens :: "token list"
  remaining_literal_cnt :: int

definition token_lex_step :: "token_lex_state \<Rightarrow> string \<Rightarrow> token_lex_state" where
  "token_lex_step t s =
     (if prev_s t @ s = ''@@'' \<and> last_idx t > -1 then
        t\<lparr>remaining_literal_cnt := remaining_literal_cnt t - 1,
          tokens := (tokens t @ [LITERAL_END_TOKEN])[nat (last_idx t) := LITERAL_START_TOKEN],
          last_idx := -1, prev_s := []\<rparr>
      else if prev_s t @ s = ''@@'' \<and> remaining_literal_cnt t > 1 then
        t\<lparr>remaining_literal_cnt := remaining_literal_cnt t - 1,
          tokens := tokens t @ [TStr ''@@''],
          last_idx := int (length (tokens t)), prev_s := []\<rparr>
      else if prev_s t @ s = ''@<'' then
        t\<lparr>tokens := tokens t @ [TStr ''@<''],
          last_html_entity_idx :=
            (if last_html_entity_idx t = -1 then int (length (tokens t))
             else last_html_entity_idx t),
          prev_s := []\<rparr>
      else if prev_s t @ s = ''>@'' then
        (if last_html_entity_idx t > -1 then
           t\<lparr>tokens := (tokens t)[nat (last_html_entity_idx t) := HTML_ENTITY_LITERAL_START_TOKEN]
                          @ [HTML_ENTITY_LITERAL_END_TOKEN],
             last_html_entity_idx := -1, prev_s := []\<rparr>
         else t\<lparr>tokens := tokens t @ [TStr ''>''], prev_s := ''@''\<rparr>)
      else if s = ''@'' \<or> s = ''>'' then
        t\<lparr>tokens := (if prev_s t \<noteq> [] then tokens t @ [TStr (prev_s t)] else tokens t),
          prev_s := s\<rparr>
      else
        t\<lparr>tokens := (if prev_s t \<noteq> [] then tokens t @ [TStr (prev_s t)] else tokens t) @ [TStr s],
          prev_s := []\<rparr>)"

definition token_lex :: "string \<Rightarrow> token list" where
  "token_lex text =
     (let str_tokens = str_lex text
      in tokens (foldl token_lex_step
           \<lparr>last_idx = -1, last_html_entity_idx = -1, prev_s = [], tokens = [],
            remaining_literal_cnt = count_literal_escapes str_tokens\<rparr> str_tokens))"

section \<open>Errors\<close>

text \<open>
  Every exception the program can raise ends the conversion.  The first group are the
  ones the program raises itself, the second the ones Python raises for it.
\<close>

datatype error =
    UnparseableLine string
  | BlockTypeMismatch
  | NegativeSpanDepth
  | UnknownClass
  | NotOnStack
  | ExpectedString
  | NestedColor
  | UnterminatedCell
  | NotInsideCell
  | UnrecognizedRawTag
  | TypeError
  | AttributeError
  | IndexError

text \<open>Sequencing: the first exception ends the computation.\<close>

fun ebind :: "error + 'a \<Rightarrow> ('a \<Rightarrow> error + 'b) \<Rightarrow> error + 'b" where
  "ebind (Inl e) f = Inl e"
| "ebind (Inr x) f = f x"

section \<open>Node tree\<close>

text \<open>
  The classes derived from \<open>Node\<close>.  A node is an object that the parser mutates after
  other objects already refer to it, so the nodes live in a store and are named by their
  index in it; a new object takes the next free index.
\<close>

datatype node_class =
    Node | Italic | Bold | FixedWidth | StrikeThru | Underline | Subscript | Superscript
  | Span | Color | Size | Literal | HTMLEntityLiteral | LineBreak

text \<open>
  The \<open>closure\<close> attribute of a node: one of the two \<open>ClosureNode\<close> constants, or the
  node that continues it after \<open>restore_nodes\<close>.
\<close>

datatype closure = OPEN_NODE | CLOSED_NODE | Continued nat

text \<open>The classes derived from \<open>Text\<close>, with the attributes their \<open>__str__\<close> reads.\<close>

datatype text_leaf =
    Link (link_open_tag: string) (link_content: string) (link_close_tag: string)
  | Anchor (anchor_open_tag: string) (anchor_close_tag: string)
  | Image (image_src: string) (image_attrs: "(string \<times> string) list") (image_alignment: string)

text \<open>
  What a list of children holds: a string, a node, a \<open>Text\<close> object, the shared
  \<open>LINE_BREAK\<close> object, or (through \<open>add_text(token)\<close> inside an HTML entity literal) a
  token object.
\<close>

datatype child =
    ChildStr string
  | ChildNode nat
  | ChildText text_leaf
  | ChildLineBreak
  | ChildToken token

record node =
  cls :: node_class
  raw_tag :: string
  open_tag :: string
  close_tag :: string
  children :: "child list"
  closure :: closure

text \<open>
  A \<open>Wikidot\<close> object: the configuration, the \<open>TOC\<close> object (its list \<open>headers\<close>, one
  entry per header: the level \<open>n\<close>, the number and the rendered text) and the two
  counters.  \<open>LINE_BREAK\<close> is the constant child \<open>ChildLineBreak\<close>.
\<close>

record toc_header =
  header_n :: nat
  header_toc_number :: nat
  header_text :: string

record wikidot =
  image_prefix :: string
  link_prefix :: string
  link_suffix :: string
  toc :: "toc_header list"
  next_toc_number :: nat
  next_eqn_number :: nat

text \<open>\<open>Node.__init__\<close>; \<open>close_tag\<close> defaults to \<open>open_tag\<close>.\<close>

definition Node_init :: "node_class \<Rightarrow> string \<Rightarrow> string \<Rightarrow> string option \<Rightarrow> node" where
  "Node_init c raw_tag' open_tag' close_tag' =
     \<lparr>cls = c, raw_tag = raw_tag', open_tag = open_tag',
      close_tag = (case close_tag' of None \<Rightarrow> open_tag' | Some t \<Rightarrow> t),
      children = [], closure = OPEN_NODE\<rparr>"

text \<open>
  \<open>cls(wikidot)\<close>, the constructor called with the one argument: the classes whose
  constructor has defaults build their node, the others need \<open>raw_tag\<close> and \<open>tag\<close> and
  raise \<open>TypeError\<close>.
\<close>

definition new_default :: "node_class \<Rightarrow> error + node" where
  "new_default c =
     (case c of
        Node \<Rightarrow> Inr (Node_init Node [] [] None)
      | Italic \<Rightarrow> Inr (Node_init Italic ''//'' ''em'' None)
      | Bold \<Rightarrow> Inr (Node_init Bold ''**'' ''strong'' None)
      | FixedWidth \<Rightarrow> Inr (Node_init FixedWidth ''{{'' ''tt'' None)
      | StrikeThru \<Rightarrow> Inr (Node_init StrikeThru ''--''
          (''span style='' @ [CHR 0x22] @ ''text-decoration: line-through;'' @ [CHR 0x22])
          (Some ''span''))
      | Underline \<Rightarrow> Inr (Node_init Underline ''__''
          (''span style='' @ [CHR 0x22] @ ''text-decoration: underline;'' @ [CHR 0x22])
          (Some ''span''))
      | Subscript \<Rightarrow> Inr (Node_init Subscript '',,'' ''sub'' None)
      | Superscript \<Rightarrow> Inr (Node_init Superscript ''^^'' ''sup'' None)
      | LineBreak \<Rightarrow> Inr (Node_init LineBreak [] [] None)
      | _ \<Rightarrow> Inl TypeError)"

text \<open>\<open>Span\<close>, \<open>Color\<close>, \<open>Size\<close>, \<open>Literal\<close> and \<open>HTMLEntityLiteral\<close>: \<open>cls(wikidot, raw_tag, tag)\<close>.\<close>

definition new_tagged :: "node_class \<Rightarrow> string \<Rightarrow> string \<Rightarrow> node" where
  "new_tagged c raw_tag' tag = Node_init c raw_tag' tag (Some ''span'')"

text \<open>\<open>Link.__init__\<close>: a relative target is put between the link prefix and suffix.\<close>

definition Link_init :: "wikidot \<Rightarrow> string \<Rightarrow> string \<Rightarrow> text_leaf" where
  "Link_init w href content =
     (let full_href =
        (if search RX_FULL_URL href = None \<and> \<not> startswith href ''#''
         then rstrip_chars ''/'' (link_prefix w) @ ''/'' @ lstrip_chars ''/'' href @ link_suffix w
         else href)
      in Link (''a href='' @ [CHR 0x22] @ full_href @ [CHR 0x22]) content ''a'')"

definition Anchor_init :: "string \<Rightarrow> text_leaf" where
  "Anchor_init name = Anchor (''a name='' @ [CHR 0x22] @ name @ [CHR 0x22]) ''a''"

subsection \<open>Rendering\<close>

text \<open>
  \<open>str(token)\<close> for a token object, whose classes define no \<open>__str__\<close>: Python's default,
  the class name and the address of the object.  The address is not fixed by the
  program; it is a parameter of the rendering.
\<close>

definition token_class_name :: "token \<Rightarrow> string" where
  "token_class_name t =
     (case t of
        TStr s \<Rightarrow> ''str''
      | LITERAL_START_TOKEN \<Rightarrow> ''LiteralStartToken''
      | LITERAL_END_TOKEN \<Rightarrow> ''LiteralEndToken''
      | HTML_ENTITY_LITERAL_START_TOKEN \<Rightarrow> ''HTMLEntityLiteralStartToken''
      | HTML_ENTITY_LITERAL_END_TOKEN \<Rightarrow> ''HTMLEntityLiteralEndToken'')"

definition str_token :: "(token \<Rightarrow> string) \<Rightarrow> token \<Rightarrow> string" where
  "str_token addr t =
     (case t of
        TStr s \<Rightarrow> s
      | _ \<Rightarrow> ''<__main__.'' @ token_class_name t @ '' object at 0x'' @ addr t @ ''>'')"

text \<open>\<open>Image.__str__\<close>; \<open>ATTRS\<close> is the list of attributes copied to the tag.\<close>

definition ATTRS :: "string list" where
  "ATTRS = [''title'', ''width'', ''height'', ''style'', ''class'', ''size'']"

definition attr_text :: "string \<Rightarrow> string \<Rightarrow> string" where
  "attr_text name v = '' '' @ name @ ''='' @ [CHR 0x22] @ v @ [CHR 0x22]"

definition str_image :: "wikidot \<Rightarrow> string \<Rightarrow> (string \<times> string) list \<Rightarrow> string \<Rightarrow> string" where
  "str_image w src attrs alignment =
     (let s0 = ''<img src='' @ [CHR 0x22] @ image_prefix w @ src @ [CHR 0x22];
          s1 = foldl (\<lambda>s attr. case map_of attrs attr of
                        Some v \<Rightarrow> if v \<noteq> [] then s @ attr_text attr v else s
                      | None \<Rightarrow> s) s0 ATTRS;
          s2 = s1 @ attr_text ''alt'' (case map_of attrs ''alt'' of Some v \<Rightarrow> v | None \<Rightarrow> src);
          s3 = s2 @ attr_text ''class'' (case map_of attrs ''class'' of Some v \<Rightarrow> v | None \<Rightarrow> ''image'');
          s4 = s3 @ '' />'';
          s5 = (case map_of attrs ''link'' of
                  Some l \<Rightarrow> if l \<noteq> [] then ''<a href='' @ [CHR 0x22] @ l @ [CHR 0x22] @ ''>'' @ s4 @ ''</a>''
                            else s4
                | None \<Rightarrow> s4)
      in if alignment = ''=''
         then ''<div class='' @ [CHR 0x22] @ ''image-container aligncenter'' @ [CHR 0x22] @ ''>''
              @ s5 @ ''</div>''
         else s5)"

definition str_text :: "wikidot \<Rightarrow> text_leaf \<Rightarrow> string" where
  "str_text w t =
     (case t of
        Link ot content ct \<Rightarrow> ''<'' @ ot @ ''>'' @ content @ ''</'' @ ct @ ''>''
      | Anchor ot ct \<Rightarrow> ''<'' @ ot @ ''></'' @ ct @ ''>''
      | Image src attrs alignment \<Rightarrow> str_image w src attrs alignment)"

text \<open>\<open>RX_SPACE.sub('&#32;', s)\<close>.\<close>

definition sub_space :: "string \<Rightarrow> string" where
  "sub_space s = concat (map (\<lambda>c. if c = CHR '' '' then ''&#32;'' else [c]) s)"

text \<open>
  \<open>closed()\<close> follows the \<open>closure\<close> attributes to one of the two constants.  A node that
  continues another is always made after it, as a child is made after its parent: the
  references of the store point to later objects only, and the two functions below
  follow them in that direction.
\<close>

function closed :: "node list \<Rightarrow> nat \<Rightarrow> bool" where
  "closed h i =
     (case closure (h ! i) of
        OPEN_NODE \<Rightarrow> False
      | CLOSED_NODE \<Rightarrow> True
      | Continued j \<Rightarrow> if i < j \<and> j < length h then closed h j else False)"
  by pat_completeness auto
termination
  by (relation "measure (\<lambda>(h, i). length h - i)") auto

text \<open>
  \<open>__str__\<close> of \<open>Node\<close> and of the classes that override it (\<open>Span\<close>, \<open>Literal\<close>,
  \<open>HTMLEntityLiteral\<close>, \<open>LineBreak\<close>), and \<open>str(child)\<close> for each kind of child.
\<close>

function str_node :: "(token \<Rightarrow> string) \<Rightarrow> wikidot \<Rightarrow> node list \<Rightarrow> nat \<Rightarrow> string" where
  "str_node addr w h i =
     (let nd = h ! i;
          str_child = (\<lambda>c. case c of
              ChildStr s \<Rightarrow> s
            | ChildNode j \<Rightarrow> if i < j \<and> j < length h then str_node addr w h j else []
            | ChildText t \<Rightarrow> str_text w t
            | ChildLineBreak \<Rightarrow> ''<br />'' @ [newline]
            | ChildToken t \<Rightarrow> str_token addr t);
          joined = (\<lambda>cs. concat (map str_child cs))
      in case cls nd of
           Span \<Rightarrow> ''<'' @ open_tag nd @ ''>'' @ rstrip (joined (children nd)) @ ''</span>''
         | Literal \<Rightarrow>
             ''<'' @ open_tag nd @ ''>'' @ sub_space (joined (children nd)) @ ''</'' @ close_tag nd @ ''>''
         | HTMLEntityLiteral \<Rightarrow>
             ''<'' @ open_tag nd @ ''>'' @ sub_space (joined (children nd)) @ ''</'' @ close_tag nd @ ''>''
         | LineBreak \<Rightarrow> ''<br />'' @ [newline]
         | _ \<Rightarrow>
             (let first = (case children nd of ChildStr '' '' # _ \<Rightarrow> '' '' | _ \<Rightarrow> []);
                  rest' = (case children nd of
                             [] \<Rightarrow> []
                           | [c] \<Rightarrow> if c = ChildStr '' '' then [] else str_child c
                           | c # cs \<Rightarrow> if c = ChildStr '' '' then joined cs else joined (c # cs))
              in if closed h i then
                   (if rest' \<noteq> [] then
                      first @ ''<'' @ open_tag nd @ ''>'' @ rest' @ ''</'' @ close_tag nd @ ''>''
                    else first)
                 else first @ raw_tag nd @ rest'))"
  by pat_completeness auto
termination
  by (relation "measure (\<lambda>(addr, w, h, i). length h - i)") auto

section \<open>Inline parser\<close>

text \<open>
  The attributes of an \<open>InlineParser\<close>, and the store of the nodes it has made.  The
  stack \<open>nodes\<close> is kept with its top first: \<open>self.nodes[-1]\<close> is the head,
  \<open>self.nodes.pop()\<close> takes the head off.
\<close>

record inline_parser =
  italic :: bool
  bold :: bool
  escape_literal :: bool
  no_escape_literal :: bool
  fixed_width :: bool
  strike_thru :: bool
  underline :: bool
  subscript :: bool
  superscript :: bool
  comment :: bool
  span_depth :: int
  color :: bool
  size_flag :: bool
  top_node :: nat
  nodes :: "nat list"
  heap :: "node list"

definition InlineParser_init :: inline_parser where
  "InlineParser_init =
     \<lparr>italic = False, bold = False, escape_literal = False, no_escape_literal = False,
      fixed_width = False, strike_thru = False, underline = False, subscript = False,
      superscript = False, comment = False, span_depth = 0, color = False, size_flag = False,
      top_node = 0, nodes = [0], heap = [Node_init Node [] [] None]\<rparr>"

definition set_flag :: "node_class \<Rightarrow> bool \<Rightarrow> inline_parser \<Rightarrow> error + inline_parser" where
  "set_flag c v p =
     (case c of
        Italic \<Rightarrow> Inr (p\<lparr>italic := v\<rparr>)
      | Bold \<Rightarrow> Inr (p\<lparr>bold := v\<rparr>)
      | FixedWidth \<Rightarrow> Inr (p\<lparr>fixed_width := v\<rparr>)
      | StrikeThru \<Rightarrow> Inr (p\<lparr>strike_thru := v\<rparr>)
      | Underline \<Rightarrow> Inr (p\<lparr>underline := v\<rparr>)
      | Subscript \<Rightarrow> Inr (p\<lparr>subscript := v\<rparr>)
      | Superscript \<Rightarrow> Inr (p\<lparr>superscript := v\<rparr>)
      | Literal \<Rightarrow> Inr (p\<lparr>escape_literal := v\<rparr>)
      | HTMLEntityLiteral \<Rightarrow> Inr (p\<lparr>no_escape_literal := v\<rparr>)
      | Span \<Rightarrow>
          (let d = (if v then span_depth p + 1 else span_depth p - 1)
           in if d < 0 then Inl NegativeSpanDepth else Inr (p\<lparr>span_depth := d\<rparr>))
      | Color \<Rightarrow> Inr (p\<lparr>color := v\<rparr>)
      | Size \<Rightarrow> Inr (p\<lparr>size_flag := v\<rparr>)
      | Node \<Rightarrow> Inr p
      | LineBreak \<Rightarrow> Inl UnknownClass)"

definition remove_flag :: "node_class \<Rightarrow> inline_parser \<Rightarrow> error + inline_parser" where
  "remove_flag c p = set_flag c False p"

definition add_flag :: "node_class \<Rightarrow> inline_parser \<Rightarrow> error + inline_parser" where
  "add_flag c p = set_flag c True p"

definition append_child :: "nat \<Rightarrow> child \<Rightarrow> node list \<Rightarrow> node list" where
  "append_child i c h = h[i := (h ! i)\<lparr>children := children (h ! i) @ [c]\<rparr>]"

definition set_closure :: "nat \<Rightarrow> closure \<Rightarrow> inline_parser \<Rightarrow> inline_parser" where
  "set_closure i cl p = p\<lparr>heap := (heap p)[i := (heap p ! i)\<lparr>closure := cl\<rparr>]\<rparr>"

text \<open>\<open>add_node(nd)\<close> for a node just made: it takes the next index of the store.\<close>

definition add_node :: "node \<Rightarrow> inline_parser \<Rightarrow> error + inline_parser" where
  "add_node nd p =
     (case nodes p of
        [] \<Rightarrow> Inl IndexError
      | cur # _ \<Rightarrow>
          (let i = length (heap p)
           in add_flag (cls nd)
                (p\<lparr>heap := append_child cur (ChildNode i) (heap p) @ [nd], nodes := i # nodes p\<rparr>)))"

definition add_text :: "child \<Rightarrow> inline_parser \<Rightarrow> error + inline_parser" where
  "add_text c p =
     (case nodes p of
        [] \<Rightarrow> Inl IndexError
      | cur # _ \<Rightarrow> Inr (p\<lparr>heap := append_child cur c (heap p)\<rparr>))"

text \<open>
  The lists \<open>removed_nodes\<close> are kept with the node appended last first, so that
  \<open>removed_nodes.pop()\<close> takes the head.
\<close>

fun remove_all_nodes_loop :: "nat list \<Rightarrow> nat list \<Rightarrow> inline_parser \<Rightarrow> error + (nat list \<times> inline_parser)" where
  "remove_all_nodes_loop removed [] p = Inr (removed, p\<lparr>nodes := []\<rparr>)"
| "remove_all_nodes_loop removed (nd # stack) p =
     ebind (remove_flag (cls (heap p ! nd)) (p\<lparr>nodes := stack\<rparr>))
       (remove_all_nodes_loop (nd # removed) stack)"

definition remove_all_nodes :: "inline_parser \<Rightarrow> error + (nat list \<times> inline_parser)" where
  "remove_all_nodes p = remove_all_nodes_loop [] (nodes p) p"

fun restore_nodes :: "nat list \<Rightarrow> inline_parser \<Rightarrow> error + inline_parser" where
  "restore_nodes [] p = Inr p"
| "restore_nodes (old_nd # removed) p =
     ebind (new_default (cls (heap p ! old_nd)))
       (\<lambda>new_nd. ebind (add_node new_nd (set_closure old_nd (Continued (length (heap p))) p))
          (restore_nodes removed))"

definition restore_all_nodes :: "nat list \<Rightarrow> inline_parser \<Rightarrow> error + inline_parser" where
  "restore_all_nodes removed p =
     (case removed of
        [] \<Rightarrow> Inl IndexError
      | old_top # removed' \<Rightarrow>
          ebind (new_default (cls (heap p ! old_top)))
            (\<lambda>new_top. restore_nodes removed'
               (p\<lparr>top_node := length (heap p), nodes := [length (heap p)],
                  heap := heap p @ [new_top]\<rparr>)))"

fun remove_nodes_to_class_loop :: "node_class \<Rightarrow> nat list \<Rightarrow> nat list \<Rightarrow> inline_parser \<Rightarrow> error + (nat list \<times> inline_parser)" where
  "remove_nodes_to_class_loop c removed [] p = Inl NotOnStack"
| "remove_nodes_to_class_loop c removed (nd # stack) p =
     ebind (remove_flag (cls (heap p ! nd)) (p\<lparr>nodes := stack\<rparr>))
       (\<lambda>p'. if cls (heap p ! nd) = c then Inr (nd # removed, p')
             else remove_nodes_to_class_loop c (nd # removed) stack p')"

definition remove_nodes_to_class :: "node_class \<Rightarrow> inline_parser \<Rightarrow> error + (nat list \<times> inline_parser)" where
  "remove_nodes_to_class c p = remove_nodes_to_class_loop c [] (nodes p) p"

definition remove_node :: "node_class \<Rightarrow> inline_parser \<Rightarrow> error + (nat \<times> inline_parser)" where
  "remove_node c p =
     ebind (remove_nodes_to_class c p)
       (\<lambda>(removed, p'). case removed of
          [] \<Rightarrow> Inl IndexError
        | nd # removed' \<Rightarrow> ebind (restore_nodes removed' p') (\<lambda>p''. Inr (nd, p'')))"

text \<open>\<open>nd = self.remove_node(cls); nd.set_closure(CLOSED_NODE)\<close>.\<close>

definition close_node :: "node_class \<Rightarrow> inline_parser \<Rightarrow> error + inline_parser" where
  "close_node c p = ebind (remove_node c p) (\<lambda>(nd, p'). Inr (set_closure nd CLOSED_NODE p'))"

text \<open>\<open>RX_WHITESPACE.match(t)\<close>; \<open>re\<close> raises \<open>TypeError\<close> for an argument that is no string.\<close>

definition match_whitespace :: "token \<Rightarrow> error + bool" where
  "match_whitespace t =
     (case t of TStr s \<Rightarrow> Inr (rx_match RX_WHITESPACE s \<noteq> None) | _ \<Rightarrow> Inl TypeError)"

definition handle_token :: "token list \<Rightarrow> nat \<Rightarrow> string \<Rightarrow> bool \<Rightarrow> node_class \<Rightarrow> inline_parser \<Rightarrow> error + inline_parser" where
  "handle_token toks i raw_tag' inside_tag c p =
     (if inside_tag then
        (if i > 0 then
           ebind (match_whitespace (toks ! (i - 1)))
             (\<lambda>sp. if \<not> sp then close_node c p else add_text (ChildStr raw_tag') p)
         else add_text (ChildStr raw_tag') p)
      else
        (if i + 1 < length toks then
           ebind (match_whitespace (toks ! (i + 1)))
             (\<lambda>sp. if \<not> sp then ebind (new_default c) (\<lambda>nd. add_node nd p)
                   else add_text (ChildStr raw_tag') p)
         else add_text (ChildStr raw_tag') p))"

text \<open>
  \<open>parse_image_attrs\<close>: each round cuts an attribute off the front of \<open>attrs\<close>; the
  counter bounds the rounds by the length of the text.  A \<open>dict\<close> is kept as a list
  of pairs, the entry set last first.
\<close>

fun parse_image_attrs_loop :: "nat \<Rightarrow> (string \<times> string) list \<Rightarrow> string \<Rightarrow> (string \<times> string) list" where
  "parse_image_attrs_loop 0 d attrs = d"
| "parse_image_attrs_loop (Suc n) d attrs =
     (case search RX_IMAGE_ATTR attrs of
        Some md \<Rightarrow> parse_image_attrs_loop n ((group md ''attr'', group md ''value'') # d) (group md ''rest'')
      | None \<Rightarrow> d)"

definition parse_image_attrs :: "string \<Rightarrow> (string \<times> string) list" where
  "parse_image_attrs attrs = parse_image_attrs_loop (Suc (length attrs)) [] attrs"

definition parse_image :: "string \<Rightarrow> inline_parser \<Rightarrow> error + inline_parser" where
  "parse_image tok p =
     (case search RX_IMAGE tok of
        Some md \<Rightarrow>
          add_text (ChildText (Image (group md ''src'') (parse_image_attrs (group md ''attrs''))
                                 (group md ''alignment''))) p
      | None \<Rightarrow> add_text (ChildStr tok) p)"

definition lower_hex :: "string \<Rightarrow> string" where
  "lower_hex s = map (\<lambda>c. if (of_char CHR ''A'' :: nat) \<le> of_char c \<and> (of_char c :: nat) \<le> of_char CHR ''Z''
                          then char_of (of_char c + (32 :: nat)) else c) s"

definition literal_span_tag :: string where
  "literal_span_tag = ''span style='' @ [CHR 0x22] @ ''white-space: pre-wrap;'' @ [CHR 0x22]"

text \<open>The branches of \<open>parse\<close> for a token that is a string and is taken as markup.\<close>

definition parse_str_token :: "wikidot \<Rightarrow> token list \<Rightarrow> nat \<Rightarrow> string \<Rightarrow> inline_parser \<Rightarrow> error + inline_parser" where
  "parse_str_token w toks i tok p =
     (if rx_match RX_WHITESPACE tok \<noteq> None then add_text (ChildStr '' '') p
      else if startswith tok ''[[span'' then
        (case search RX_SPAN tok of
           Some md \<Rightarrow> add_node (new_tagged Span tok (''span '' @ group md ''1'')) p
         | None \<Rightarrow> add_text (ChildStr tok) p)
      else if tok = ''[[/span]]'' then
        (if span_depth p > 0 then close_node Span p else add_text (ChildStr tok) p)
      else if startswith tok ''[[size'' then
        (case search RX_SIZE tok of
           Some md \<Rightarrow>
             add_node (new_tagged Size tok
               (''span style='' @ [CHR 0x22] @ ''font-size:'' @ group md ''1'' @ '';'' @ [CHR 0x22])) p
         | None \<Rightarrow> add_text (ChildStr tok) p)
      else if tok = ''[[/size]]'' then
        (if size_flag p then close_node Size p else add_text (ChildStr tok) p)
      else if startswith tok ''[[image'' then parse_image tok p
      else if startswith tok ''[[=image'' then parse_image tok p
      else if startswith tok ''[[['' then
        (case search RX_PARSE_TRIPLE_BRACKET tok of
           Some md \<Rightarrow>
             add_text (ChildText (Link_init w (group md ''href'')
               (case group_opt md ''name'' of
                  Some n \<Rightarrow> if n \<noteq> [] then n else group md ''href''
                | None \<Rightarrow> group md ''href''))) p
         | None \<Rightarrow> add_text (ChildStr tok) p)
      else if startswith tok ''[['' then
        (case search RX_PARSE_DOUBLE_BRACKET tok of
           Some md \<Rightarrow> add_text (ChildText (Anchor_init (group md ''anchor''))) p
         | None \<Rightarrow> add_text (ChildStr tok) p)
      else if startswith tok ''['' then
        (case search RX_PARSE_SINGLE_BRACKET tok of
           Some md \<Rightarrow> add_text (ChildText (Link_init w (group md ''href'') (group md ''name''))) p
         | None \<Rightarrow> add_text (ChildStr tok) p)
      else if tok = ''##'' then
        (if color p then close_node Color p else add_text (ChildStr tok) p)
      else if startswith tok ''##'' then
        (if color p then Inl NestedColor
         else if endswith tok ''|'' then
           (let color_name = take (length tok - 3) (drop 2 tok);
                tag = (if search RX_RGB color_name \<noteq> None
                       then ''span style='' @ [CHR 0x22] @ ''color: #'' @ lower_hex color_name @ [CHR 0x22]
                       else ''span style='' @ [CHR 0x22] @ ''color: '' @ color_name @ [CHR 0x22])
            in add_node (new_tagged Color tok tag) p)
         else add_text (ChildStr tok) p)
      else if tok = ''--'' then handle_token toks i ''--'' (strike_thru p) StrikeThru p
      else if tok = ''__'' then handle_token toks i ''__'' (underline p) Underline p
      else if tok = ''//'' then handle_token toks i ''//'' (italic p) Italic p
      else if tok = ''**'' then handle_token toks i ''**'' (bold p) Bold p
      else if tok = '',,'' then handle_token toks i '',,'' (subscript p) Subscript p
      else if tok = ''^^'' then handle_token toks i ''^^'' (superscript p) Superscript p
      else if tok = ''{{'' then
        (if \<not> fixed_width p then
           (if i + 1 < length toks then
              ebind (match_whitespace (toks ! (i + 1)))
                (\<lambda>sp. if \<not> sp then ebind (new_default FixedWidth) (\<lambda>nd. add_node nd p)
                      else add_text (ChildStr ''{{'') p)
            else add_text (ChildStr ''{{'') p)
         else Inr p)
      else if tok = ''}}'' then
        (if fixed_width p then
           (if i > 0 then
              ebind (match_whitespace (toks ! (i - 1)))
                (\<lambda>sp. if \<not> sp then close_node FixedWidth p else add_text (ChildStr ''}}'') p)
            else add_text (ChildStr ''}}'') p)
         else Inr p)
      else if startswith tok ''http'' then
        (if search RX_URL tok \<noteq> None then add_text (ChildText (Link_init w tok tok)) p
         else add_text (ChildStr (html_escape tok)) p)
      else add_text (ChildStr (html_escape tok)) p)"

text \<open>One round of the loop of \<open>parse\<close>: the token at index \<open>i\<close>.\<close>

definition parse_token :: "wikidot \<Rightarrow> token list \<Rightarrow> nat \<Rightarrow> token \<Rightarrow> inline_parser \<Rightarrow> error + inline_parser" where
  "parse_token w toks i tok p =
     (if comment p then
        (if tok \<noteq> TStr ''--]'' then Inr p else Inr (p\<lparr>comment := False\<rparr>))
      else if tok = TStr ''[!--'' then Inr (p\<lparr>comment := True\<rparr>)
      else if tok = LITERAL_END_TOKEN \<and> escape_literal p then
        ebind (remove_node Literal (p\<lparr>escape_literal := False\<rparr>)) (\<lambda>(nd, p'). Inr p')
      else if tok = LITERAL_START_TOKEN then
        add_node (new_tagged Literal ''@@'' literal_span_tag) (p\<lparr>escape_literal := True\<rparr>)
      else if tok = HTML_ENTITY_LITERAL_END_TOKEN \<and> no_escape_literal p then
        ebind (remove_node HTMLEntityLiteral (p\<lparr>no_escape_literal := False\<rparr>)) (\<lambda>(nd, p'). Inr p')
      else if tok = HTML_ENTITY_LITERAL_END_TOKEN then add_text (ChildStr (html_escape ''>@'')) p
      else if escape_literal p then
        (case tok of TStr s \<Rightarrow> add_text (ChildStr (html_escape s)) p | _ \<Rightarrow> Inl AttributeError)
      else if no_escape_literal p then
        (case tok of TStr s \<Rightarrow> add_text (ChildStr s) p | _ \<Rightarrow> add_text (ChildToken tok) p)
      else if tok = HTML_ENTITY_LITERAL_START_TOKEN then
        add_node (new_tagged HTMLEntityLiteral ''@@'' literal_span_tag) (p\<lparr>no_escape_literal := True\<rparr>)
      else case tok of
             TStr s \<Rightarrow> parse_str_token w toks i s p
           | _ \<Rightarrow> Inl ExpectedString)"

fun parse_loop :: "wikidot \<Rightarrow> token list \<Rightarrow> nat \<Rightarrow> token list \<Rightarrow> inline_parser \<Rightarrow> error + inline_parser" where
  "parse_loop w toks i [] p = Inr p"
| "parse_loop w toks i (tok # rest') p =
     ebind (parse_token w toks i tok p) (parse_loop w toks (i + 1) rest')"

definition parse :: "wikidot \<Rightarrow> token list \<Rightarrow> inline_parser \<Rightarrow> error + inline_parser" where
  "parse w toks p = parse_loop w toks 0 toks p"

section \<open>Block classifier\<close>

datatype block_type =
    BLOCK_TYPE_CODE | BLOCK_TYPE_MATH | BLOCK_TYPE_P | BLOCK_TYPE_UL | BLOCK_TYPE_OL
  | BLOCK_TYPE_BLOCKQUOTE | BLOCK_TYPE_TABLE | BLOCK_TYPE_HR | BLOCK_TYPE_HN
  | BLOCK_TYPE_EMPTY

text \<open>
  \<open>analyze_line(line, current_block)\<close>; of the current block only its \<open>block_type\<close> is
  read, so that is what the function takes (\<open>None\<close> when no block is open).
\<close>

definition analyze_line :: "string \<Rightarrow> block_type option \<Rightarrow> error + (block_type \<times> match)" where
  "analyze_line line current_block_type =
     (let listlike =
        (if current_block_type \<noteq> Some BLOCK_TYPE_TABLE then
           (case search RX_UL line of Some md \<Rightarrow> Some (BLOCK_TYPE_UL, md) | None \<Rightarrow>
           (case search RX_OL line of Some md \<Rightarrow> Some (BLOCK_TYPE_OL, md) | None \<Rightarrow>
           (case search RX_HN line of Some md \<Rightarrow> Some (BLOCK_TYPE_HN, md) | None \<Rightarrow>
           (case search RX_HR line of Some md \<Rightarrow> Some (BLOCK_TYPE_HR, md) | None \<Rightarrow> None))))
         else None)
      in case listlike of Some r \<Rightarrow> Inr r | None \<Rightarrow>
         (case search RX_TABLE line of Some md \<Rightarrow> Inr (BLOCK_TYPE_TABLE, md) | None \<Rightarrow>
         (case search RX_EMPTY line of Some md \<Rightarrow> Inr (BLOCK_TYPE_EMPTY, md) | None \<Rightarrow>
         (case search RX_P line of Some md \<Rightarrow> Inr (BLOCK_TYPE_P, md) | None \<Rightarrow>
            Inl (UnparseableLine line)))))"

section \<open>Blocks\<close>

text \<open>
  The output stream is the list of the strings written to it, in order; the document is
  their concatenation.
\<close>

type_synonym writes = "string list"

text \<open>\<open>'{}'.format(n)\<close> for a number that is not negative.\<close>

fun str_nat :: "nat \<Rightarrow> string" where
  "str_nat n =
     (if n < 10 then [char_of (48 + n)] else str_nat (n div 10) @ [char_of (48 + n mod 10)])"

definition dq :: string where
  "dq = [CHR 0x22]"

definition block_type_str :: "block_type \<Rightarrow> string" where
  "block_type_str t =
     (case t of
        BLOCK_TYPE_CODE \<Rightarrow> ''code'' | BLOCK_TYPE_MATH \<Rightarrow> ''math'' | BLOCK_TYPE_P \<Rightarrow> ''p''
      | BLOCK_TYPE_UL \<Rightarrow> ''ul'' | BLOCK_TYPE_OL \<Rightarrow> ''ol'' | BLOCK_TYPE_BLOCKQUOTE \<Rightarrow> ''blockquote''
      | BLOCK_TYPE_TABLE \<Rightarrow> ''table'' | BLOCK_TYPE_HR \<Rightarrow> ''hr'' | BLOCK_TYPE_HN \<Rightarrow> ''_hn''
      | BLOCK_TYPE_EMPTY \<Rightarrow> ''_empty'')"

definition MULTILINE_BLOCK_TYPES :: "block_type list" where
  "MULTILINE_BLOCK_TYPES = [BLOCK_TYPE_CODE, BLOCK_TYPE_MATH, BLOCK_TYPE_OL, BLOCK_TYPE_P,
     BLOCK_TYPE_TABLE, BLOCK_TYPE_UL]"

datatype block_class =
    Block | Header | HorizontalRule | Table | ListBlock | Empty | Code | Math | Paragraph

text \<open>
  A \<open>Block\<close> object with the attributes of its subclasses: \<open>toc_number\<close> of a
  \<open>Header\<close>, the two nesting levels of \<open>Code\<close> and \<open>Math\<close>, \<open>eqn_number\<close> of \<open>Math\<close>.
\<close>

record block =
  block_cls :: block_class
  block_type :: block_type
  lines :: "string list"
  linenos :: "nat list"
  matches :: "match list"
  tag :: string
  toc_number :: nat
  input_nesting_level :: int
  output_nesting_level :: int
  eqn_number :: nat

text \<open>\<open>Block.__init__\<close> with a block type given, as every caller does; \<open>_tag\<close> of \<open>Block\<close>.\<close>

definition Block_init :: "block_class \<Rightarrow> string \<Rightarrow> nat \<Rightarrow> block_type \<Rightarrow> match \<Rightarrow> block" where
  "Block_init c line lineno bt m =
     \<lparr>block_cls = c, block_type = bt, lines = [line], linenos = [lineno], matches = [m],
      tag = block_type_str bt, toc_number = 0, input_nesting_level = 0,
      output_nesting_level = 0, eqn_number = 0\<rparr>"

definition multiline_type :: "block \<Rightarrow> bool" where
  "multiline_type b = (block_type b \<in> set MULTILINE_BLOCK_TYPES)"

definition add_line :: "block \<Rightarrow> string \<Rightarrow> nat \<Rightarrow> block_type \<Rightarrow> match \<Rightarrow> bool \<Rightarrow> error + block" where
  "add_line b line lineno bt m continued =
     (if \<not> continued \<and> bt \<noteq> BLOCK_TYPE_P \<and> bt \<noteq> BLOCK_TYPE_EMPTY \<and> bt \<noteq> block_type b
      then Inl BlockTypeMismatch
      else Inr (b\<lparr>lines := lines b @ [line], linenos := linenos b @ [lineno],
                  matches := matches b @ [m]\<rparr>))"

subsection \<open>Inline content of a block\<close>

definition parse_content :: "wikidot \<Rightarrow> string \<Rightarrow> inline_parser \<Rightarrow> error + inline_parser" where
  "parse_content w content p = parse w (token_lex content) p"

definition str_top :: "(token \<Rightarrow> string) \<Rightarrow> wikidot \<Rightarrow> inline_parser \<Rightarrow> string" where
  "str_top addr w p = str_node addr w (heap p) (top_node p)"

text \<open>\<open>Block.content\<close>: every match parsed by one parser, then the tree rendered.\<close>

fun parse_matches :: "wikidot \<Rightarrow> match list \<Rightarrow> inline_parser \<Rightarrow> error + inline_parser" where
  "parse_matches w [] p = Inr p"
| "parse_matches w (m # ms') p =
     ebind (parse_content w (group m ''content'') p) (parse_matches w ms')"

definition content :: "(token \<Rightarrow> string) \<Rightarrow> wikidot \<Rightarrow> block \<Rightarrow> error + string" where
  "content addr w b =
     ebind (parse_matches w (matches b) InlineParser_init) (\<lambda>p. Inr (str_top addr w p))"

text \<open>\<open>Block.write_content\<close>: the tree is written after every match.\<close>

fun write_content :: "(token \<Rightarrow> string) \<Rightarrow> wikidot \<Rightarrow> match list \<Rightarrow> inline_parser \<Rightarrow> error + writes" where
  "write_content addr w [] p = Inr []"
| "write_content addr w (m # ms') p =
     ebind (parse_content w (group m ''content'') p)
       (\<lambda>p'. ebind (write_content addr w ms' p') (\<lambda>out. Inr (str_top addr w p' # out)))"

subsection \<open>Header and table of contents\<close>

definition Header_n :: "block \<Rightarrow> nat" where
  "Header_n b = length (group (hd (matches b)) ''plus_signs'')"

text \<open>
  \<open>Header.__init__\<close>: takes the next number and registers with \<open>wikidot.toc\<close>, which
  renders the header text at once.
\<close>

definition Header_init :: "(token \<Rightarrow> string) \<Rightarrow> wikidot \<Rightarrow> string \<Rightarrow> nat \<Rightarrow> match \<Rightarrow> error + (wikidot \<times> block)" where
  "Header_init addr w line lineno m =
     (let b0 = Block_init Header line lineno BLOCK_TYPE_HN m;
          b = b0\<lparr>tag := ''h'' @ str_nat (Header_n b0), toc_number := next_toc_number w\<rparr>;
          w' = w\<lparr>next_toc_number := next_toc_number w + 1\<rparr>
      in ebind (content addr w' b)
           (\<lambda>text. Inr (w'\<lparr>toc := toc w' @ [\<lparr>header_n = Header_n b,
                                 header_toc_number = toc_number b, header_text = text\<rparr>]\<rparr>, b)))"

definition Header_close :: "(token \<Rightarrow> string) \<Rightarrow> wikidot \<Rightarrow> block \<Rightarrow> error + writes" where
  "Header_close addr w b =
     ebind (write_content addr w (matches b) InlineParser_init)
       (\<lambda>out. Inr ([''<'' @ tag b @ '' id='' @ dq @ ''toc'' @ str_nat (toc_number b) @ dq @ ''><span>'']
                    @ out @ [''</span></'' @ tag b @ ''>'' @ [newline]]))"

text \<open>\<open>Block.close\<close>, for an object of the class \<open>Block\<close> itself.\<close>

definition Block_close :: "(token \<Rightarrow> string) \<Rightarrow> wikidot \<Rightarrow> block \<Rightarrow> error + writes" where
  "Block_close addr w b =
     ebind (write_content addr w (matches b) InlineParser_init)
       (\<lambda>out. Inr ([''<'' @ tag b @ ''>''] @ out @ [''</'' @ tag b @ ''>'' @ [newline]]))"

definition TOC_close :: "toc_header list \<Rightarrow> writes" where
  "TOC_close headers =
     [''<div id='' @ dq @ ''toc'' @ dq @ ''>'' @ [newline],
      ''<div class='' @ dq @ ''title'' @ dq @ ''>Table of Contents</div>'' @ [newline],
      ''<div id='' @ dq @ ''toc-list'' @ dq @ ''>'' @ [newline]]
     @ concat (map (\<lambda>h.
         [''<div style='' @ dq @ ''margin-left: '' @ str_nat (header_n h + 1) @ ''em;'' @ dq @ ''>'' @ [newline],
          ''<a href='' @ dq @ ''#toc'' @ str_nat (header_toc_number h) @ dq @ ''>'' @ header_text h @ ''</a>'' @ [newline],
          ''</div>'' @ [newline]]) headers)
     @ [''</div>'' @ [newline], ''</div>'' @ [newline]]"

subsection \<open>Paragraph\<close>

fun get_content :: "wikidot \<Rightarrow> match list \<Rightarrow> inline_parser \<Rightarrow> error + inline_parser" where
  "get_content w [] p = Inr p"
| "get_content w [m] p = parse_content w (group m ''content'') p"
| "get_content w (m # ms') p =
     ebind (parse_content w (group m ''content'') p)
       (\<lambda>p'. ebind (add_text ChildLineBreak p') (get_content w ms'))"

definition is_Image :: "child \<Rightarrow> bool" where
  "is_Image c = (case c of ChildText (Image src attrs alignment) \<Rightarrow> True | _ \<Rightarrow> False)"

definition Paragraph_close :: "(token \<Rightarrow> string) \<Rightarrow> wikidot \<Rightarrow> block \<Rightarrow> error + writes" where
  "Paragraph_close addr w b =
     ebind (get_content w (matches b) InlineParser_init)
       (\<lambda>p. let content' = str_top addr w p;
                 top_children = children (heap p ! top_node p);
                 suppress_tags = (length top_children = 1 \<and> is_Image (hd top_children))
             in if search RX_EMPTY_PARAGRAPH content' = None then
                  Inr ((if \<not> suppress_tags then [''<'' @ tag b @ ''>''] else [])
                       @ [content']
                       @ (if \<not> suppress_tags then [''</'' @ tag b @ ''>'' @ [newline]] else [[newline]]))
                else Inr [])"

subsection \<open>Code and math\<close>

text \<open>The loop \<open>for i, match in enumerate(self.matches)\<close> of the two fenced blocks.\<close>

fun write_fenced_lines :: "nat \<Rightarrow> nat \<Rightarrow> match list \<Rightarrow> writes" where
  "write_fenced_lines i len [] = []"
| "write_fenced_lines i len (m # ms') =
     (if i = 0 \<and> search RX_BLANK_LINE (group m ''content'') \<noteq> None
      then write_fenced_lines (i + 1) len ms'
      else [html_escape (group m ''content'')]
           @ (if i + 1 < len then [[newline]] else [])
           @ write_fenced_lines (i + 1) len ms')"

definition write_code_content :: "block \<Rightarrow> writes" where
  "write_code_content b =
     replicate (nat (output_nesting_level b)) (''[[code]]'' @ [newline])
     @ write_fenced_lines 0 (length (matches b)) (matches b)
     @ replicate (nat (output_nesting_level b)) ([newline] @ ''[[/code]]'')"

definition Code_close :: "block \<Rightarrow> writes" where
  "Code_close b =
     [''<div class='' @ dq @ ''code'' @ dq @ ''>'' @ [newline], ''<pre>'' @ [newline], ''<code>'']
     @ write_code_content b
     @ [''</code>'' @ [newline], ''</pre></div>'' @ [newline]]"

definition write_math_content :: "block \<Rightarrow> writes" where
  "write_math_content b =
     replicate (nat (output_nesting_level b)) (''[[math]]'' @ [newline])
     @ write_fenced_lines 0 (length (matches b)) (matches b)
     @ replicate (nat (output_nesting_level b)) ([newline] @ ''[[/math]]'')"

definition Math_close :: "block \<Rightarrow> writes" where
  "Math_close b =
     [''<span class='' @ dq @ ''equation-number'' @ dq @ ''>('' @ str_nat (eqn_number b) @ '')</span>'' @ [newline],
      ''<div class='' @ dq @ ''math-equation'' @ dq @ '' id='' @ dq @ ''equation-'' @ str_nat (eqn_number b) @ dq @ ''>'',
      ''$$ '' @ [CHR 0x5C] @ ''begin{align} '']
     @ write_math_content b
     @ ['' '' @ [CHR 0x5C] @ ''end{align} $$'', ''</div>'' @ [newline]]"

subsection \<open>Table\<close>

text \<open>
  The attributes a \<open>Table\<close> uses while it renders.  \<open>text_align\<close> is \<open>None\<close> before the
  first cell and a string afterwards; it is only tested for being empty, and \<open>None\<close> is
  kept as the empty string.  \<open>parser\<close> is \<open>None\<close> until the first cell starts.
\<close>

record table_state =
  cell_type :: string
  colspan :: int
  text_align :: string
  cell_content :: string
  cell_parser :: "inline_parser option"

definition Table_state_init :: table_state where
  "Table_state_init =
     \<lparr>cell_type = ''td'', colspan = 1, text_align = [], cell_content = [], cell_parser = None\<rparr>"

fun join :: "string \<Rightarrow> string list \<Rightarrow> string" where
  "join sep [] = []"
| "join sep [x] = x"
| "join sep (x # xs) = x @ sep @ join sep xs"

definition start_cell :: "table_state \<Rightarrow> table_state" where
  "start_cell ts = ts\<lparr>cell_parser := Some InlineParser_init\<rparr>"

definition add_cell_content :: "wikidot \<Rightarrow> string \<Rightarrow> table_state \<Rightarrow> error + table_state" where
  "add_cell_content w c ts =
     (case cell_parser ts of
        None \<Rightarrow> Inl AttributeError
      | Some p \<Rightarrow> ebind (parse_content w c p) (\<lambda>p'. Inr (ts\<lparr>cell_parser := Some p'\<rparr>)))"

definition add_line_break :: "table_state \<Rightarrow> error + table_state" where
  "add_line_break ts =
     (case cell_parser ts of
        None \<Rightarrow> Inl AttributeError
      | Some p \<Rightarrow> ebind (add_text ChildLineBreak p) (\<lambda>p'. Inr (ts\<lparr>cell_parser := Some p'\<rparr>)))"

definition open_cell_tag :: "table_state \<Rightarrow> string" where
  "open_cell_tag ts =
     join '' '' ([cell_type ts]
       @ (if colspan ts > 1 then [''colspan='' @ dq @ str_nat (nat (colspan ts)) @ dq] else [])
       @ (if text_align ts \<noteq> [] then [''style='' @ dq @ ''text-align: '' @ text_align ts @ '';'' @ dq]
          else []))"

definition end_cell :: "(token \<Rightarrow> string) \<Rightarrow> wikidot \<Rightarrow> table_state \<Rightarrow> error + writes" where
  "end_cell addr w ts =
     (case cell_parser ts of
        None \<Rightarrow> Inl AttributeError
      | Some p \<Rightarrow>
          Inr [''<'' @ open_cell_tag ts @ ''>'' @ str_top addr w p @ ''</'' @ cell_type ts @ ''>'' @ [newline]])"

definition analyze_cell :: "string \<Rightarrow> table_state \<Rightarrow> table_state" where
  "analyze_cell cell ts =
     (let (tag', cell_content') =
            (case search RX_TAGGED_CELL cell of
               Some md \<Rightarrow> (group md ''tag'', group md ''content'')
             | None \<Rightarrow> ([], cell))
      in ts\<lparr>cell_content := cell_content',
            cell_type := (if tag' = ''~'' then ''th'' else ''td''),
            text_align := (if tag' = ''<'' then ''left''
                           else if tag' = ''='' then ''center''
                           else if tag' = ''>'' then ''right''
                           else [])\<rparr>)"

definition print_middle_of_cell :: "wikidot \<Rightarrow> string \<Rightarrow> table_state \<Rightarrow> error + table_state" where
  "print_middle_of_cell w cell ts = ebind (add_cell_content w cell ts) add_line_break"

definition print_start_of_cell :: "wikidot \<Rightarrow> string \<Rightarrow> table_state \<Rightarrow> error + table_state" where
  "print_start_of_cell w cell ts =
     (let ts1 = start_cell (analyze_cell cell ts)
      in ebind (add_cell_content w (cell_content ts1) ts1)
           (\<lambda>ts2. ebind (add_line_break ts2) (\<lambda>ts3. Inr (ts3\<lparr>colspan := 1\<rparr>))))"

definition print_end_of_cell :: "(token \<Rightarrow> string) \<Rightarrow> wikidot \<Rightarrow> string \<Rightarrow> table_state \<Rightarrow> error + (table_state \<times> writes)" where
  "print_end_of_cell addr w cell ts =
     ebind (add_cell_content w cell ts)
       (\<lambda>ts1. ebind (end_cell addr w ts1) (\<lambda>out. Inr (ts1, out)))"

definition print_full_cell :: "(token \<Rightarrow> string) \<Rightarrow> wikidot \<Rightarrow> string \<Rightarrow> table_state \<Rightarrow> error + (table_state \<times> writes)" where
  "print_full_cell addr w cell ts =
     (let ts1 = start_cell (analyze_cell cell ts)
      in ebind (add_cell_content w (cell_content ts1) ts1)
           (\<lambda>ts2. ebind (end_cell addr w ts2) (\<lambda>out. Inr (ts2\<lparr>colspan := 1\<rparr>, out))))"

text \<open>The loop \<open>for cell in cells\<close> of \<open>print_cells\<close>.\<close>

fun print_cells_loop :: "(token \<Rightarrow> string) \<Rightarrow> wikidot \<Rightarrow> string list \<Rightarrow> table_state \<Rightarrow> error + (table_state \<times> writes)" where
  "print_cells_loop addr w [] ts = Inr (ts, [])"
| "print_cells_loop addr w (cell # cells) ts =
     (if cell = [] then print_cells_loop addr w cells (ts\<lparr>colspan := colspan ts + 1\<rparr>)
      else ebind (print_full_cell addr w cell ts)
             (\<lambda>(ts1, out1). ebind (print_cells_loop addr w cells ts1)
                (\<lambda>(ts2, out2). Inr (ts2, out1 @ out2))))"

definition print_cells :: "(token \<Rightarrow> string) \<Rightarrow> wikidot \<Rightarrow> string option \<Rightarrow> string list \<Rightarrow> string option \<Rightarrow> string option \<Rightarrow> table_state \<Rightarrow> error + (table_state \<times> writes)" where
  "print_cells addr w first_cell cells last_cell lone_cell ts =
     ebind (case lone_cell of
              Some c \<Rightarrow> print_middle_of_cell w c (ts\<lparr>colspan := 1\<rparr>)
            | None \<Rightarrow> Inr (ts\<lparr>colspan := 1\<rparr>))
       (\<lambda>ts1. ebind (case first_cell of
                       Some c \<Rightarrow> print_end_of_cell addr w c ts1
                     | None \<Rightarrow> Inr (ts1, []))
          (\<lambda>(ts2, out2). ebind (print_cells_loop addr w cells ts2)
             (\<lambda>(ts3, out3). ebind (case last_cell of
                                     Some c \<Rightarrow> print_start_of_cell w c ts3
                                   | None \<Rightarrow> Inr ts3)
                (\<lambda>ts4. Inr (ts4, out2 @ out3)))))"

definition row_to_cells :: "string \<Rightarrow> string list" where
  "row_to_cells row = split row ''||''"

text \<open>The loop of \<open>Table.close\<close> over the matches, with its flag \<open>inside_cell\<close>.\<close>

fun Table_rows :: "(token \<Rightarrow> string) \<Rightarrow> wikidot \<Rightarrow> match list \<Rightarrow> bool \<Rightarrow> table_state \<Rightarrow> error + writes" where
  "Table_rows addr w [] inside_cell ts = Inr []"
| "Table_rows addr w (m # ms') inside_cell ts =
     (let content' = group m ''content''
      in case search RX_FULL_ROW content' of
        Some md \<Rightarrow>
          if inside_cell then Inl UnterminatedCell
          else ebind (print_cells addr w None (row_to_cells (group md ''row'')) None None ts)
                 (\<lambda>(ts1, out1). ebind (Table_rows addr w ms' False ts1)
                    (\<lambda>out2. Inr ([''<tr>'' @ [newline]] @ out1 @ [''</tr>'' @ [newline]] @ out2)))
      | None \<Rightarrow>
      (case search RX_START_ROW content' of
        Some md \<Rightarrow>
          if inside_cell then Inl UnterminatedCell
          else (let cells = row_to_cells (group md ''row'')
                in ebind (print_cells addr w None (butlast cells) (Some (last cells)) None ts)
                     (\<lambda>(ts1, out1). ebind (Table_rows addr w ms' True ts1)
                        (\<lambda>out2. Inr ([''<tr>'' @ [newline]] @ out1 @ out2))))
      | None \<Rightarrow>
      (case search RX_END_ROW content' of
        Some md \<Rightarrow>
          if \<not> inside_cell then Inl NotInsideCell
          else (let cells = row_to_cells (group md ''row'')
                in ebind (print_cells addr w (Some (hd cells)) (tl cells) None None ts)
                     (\<lambda>(ts1, out1). ebind (Table_rows addr w ms' False ts1)
                        (\<lambda>out2. Inr (out1 @ [''</tr>'' @ [newline]] @ out2))))
      | None \<Rightarrow>
          (let cells = row_to_cells content'
           in ebind (if length cells = 1
                     then print_cells addr w None [] None (Some (last cells)) ts
                     else print_cells addr w (Some (hd cells)) (butlast (tl cells))
                            (Some (last cells)) None ts)
                (\<lambda>(ts1, out1). ebind (Table_rows addr w ms' True ts1)
                   (\<lambda>out2. Inr (out1 @ out2)))))))"

definition Table_close :: "(token \<Rightarrow> string) \<Rightarrow> wikidot \<Rightarrow> block \<Rightarrow> error + writes" where
  "Table_close addr w b =
     ebind (Table_rows addr w (matches b) False Table_state_init)
       (\<lambda>out. Inr ([''<table class='' @ dq @ ''wiki-content-table'' @ dq @ ''>'' @ [newline]]
                    @ out @ [''</table>'' @ [newline]]))"

subsection \<open>List\<close>

definition raw_tag_to_tag :: "string option \<Rightarrow> error + block_type" where
  "raw_tag_to_tag r =
     (if r = Some ''*'' then Inr BLOCK_TYPE_UL
      else if r = Some ''#'' then Inr BLOCK_TYPE_OL
      else Inl UnrecognizedRawTag)"

text \<open>\<open>match.group(name)\<close> where the pattern may lack the group: \<open>IndexError\<close>.\<close>

definition group_checked :: "match \<Rightarrow> string \<Rightarrow> error + string option" where
  "group_checked m n = (case map_of m n of None \<Rightarrow> Inl IndexError | Some v \<Rightarrow> Inr v)"

text \<open>
  The first loop of \<open>List.close\<close>: the items as triples of the node, the tag and the
  indent.  \<open>triple\<close> holds the tag and indent of an item that a continuation line left
  unfinished.
\<close>

fun List_items :: "wikidot \<Rightarrow> match list \<Rightarrow> (block_type \<times> nat) option \<Rightarrow> inline_parser \<Rightarrow> (nat \<times> block_type \<times> nat) list \<Rightarrow> error + ((nat \<times> block_type \<times> nat) list \<times> inline_parser)" where
  "List_items w [] triple p node_tag_indent = Inr (node_tag_indent, p)"
| "List_items w (m # ms') triple p node_tag_indent =
     ebind (case triple of
              Some t \<Rightarrow> Inr t
            | None \<Rightarrow>
                ebind (group_checked m ''raw_tag'')
                  (\<lambda>r. ebind (raw_tag_to_tag r)
                     (\<lambda>t. ebind (group_checked m ''indent'')
                        (\<lambda>ind. case ind of None \<Rightarrow> Inl TypeError | Some s \<Rightarrow> Inr (t, length s)))))
       (\<lambda>(t, ind). ebind (group_checked m ''content'')
          (\<lambda>c. ebind (parse_content w (case c of Some s \<Rightarrow> s | None \<Rightarrow> []) p)
             (\<lambda>p1. ebind (group_checked m ''br'')
                (\<lambda>br. if br \<noteq> None \<and> br \<noteq> Some [] then
                        ebind (add_text ChildLineBreak p1)
                          (\<lambda>p2. List_items w ms' (Some (t, ind)) p2 node_tag_indent)
                      else
                        ebind (remove_all_nodes p1)
                          (\<lambda>(removed, p2). ebind (restore_all_nodes removed p2)
                             (\<lambda>p3. List_items w ms' None p3
                                      (node_tag_indent @ [(top_node p1, t, ind)])))))))"

record list_state =
  opened_lists :: "block_type list"
  inside_line :: "int \<Rightarrow> bool"

definition close_line :: "int \<Rightarrow> list_state \<Rightarrow> list_state \<times> writes" where
  "close_line indent ls = (ls\<lparr>inside_line := (inside_line ls)(indent := False)\<rparr>, [''</li>'' @ [newline]])"

definition open_line :: "int \<Rightarrow> list_state \<Rightarrow> list_state \<times> writes" where
  "open_line indent ls =
     (let (ls1, out1) = (if inside_line ls indent then close_line indent ls else (ls, []))
      in (ls1\<lparr>inside_line := (inside_line ls1)(indent := True)\<rparr>, out1 @ [''<li>'']))"

definition open_list :: "block_type \<Rightarrow> int \<Rightarrow> list_state \<Rightarrow> list_state \<times> writes" where
  "open_list t indent ls =
     (let (ls1, out1) =
            (if inside_line ls (indent - 1) then (ls, [[newline]])
             else if indent > 0 then
               (let (ls', out') = open_line (indent - 1) ls in (ls', out' @ [[newline]]))
             else (ls, []))
      in (ls1\<lparr>opened_lists := t # opened_lists ls1\<rparr>, out1 @ [''<'' @ block_type_str t @ ''>'' @ [newline]]))"

definition close_list :: "int \<Rightarrow> list_state \<Rightarrow> error + (list_state \<times> writes)" where
  "close_list indent ls =
     (let (ls1, out1) = (if inside_line ls indent then close_line indent ls else (ls, []))
      in case opened_lists ls1 of
           [] \<Rightarrow> Inl IndexError
         | t # rest' \<Rightarrow>
             Inr (ls1\<lparr>opened_lists := rest'\<rparr>, out1 @ [''</'' @ block_type_str t @ ''>'' @ [newline]]))"

text \<open>\<open>range(a, b)\<close>.\<close>

definition range :: "int \<Rightarrow> int \<Rightarrow> int list" where
  "range a b = map (\<lambda>k. a + int k) [0..<nat (b - a)]"

fun close_lists :: "int list \<Rightarrow> list_state \<Rightarrow> error + (list_state \<times> writes)" where
  "close_lists [] ls = Inr (ls, [])"
| "close_lists (i # is) ls =
     ebind (close_list (i + 1) ls)
       (\<lambda>(ls1, out1). ebind (close_lists is ls1) (\<lambda>(ls2, out2). Inr (ls2, out1 @ out2)))"

fun open_lists :: "block_type \<Rightarrow> int list \<Rightarrow> list_state \<Rightarrow> list_state \<times> writes" where
  "open_lists t [] ls = (ls, [])"
| "open_lists t (i # is) ls =
     (let (ls1, out1) = open_list t (i + 1) ls;
          (ls2, out2) = open_lists t is ls1
      in (ls2, out1 @ out2))"

text \<open>The second loop of \<open>List.close\<close> and the closing of the lists left open.\<close>

fun List_render :: "(token \<Rightarrow> string) \<Rightarrow> wikidot \<Rightarrow> node list \<Rightarrow> (nat \<times> block_type \<times> nat) list \<Rightarrow> int \<Rightarrow> list_state \<Rightarrow> error + writes" where
  "List_render addr w h [] last_indent ls =
     ebind (close_lists (range (-1) last_indent) ls) (\<lambda>(ls1, out1). Inr out1)"
| "List_render addr w h ((nd, t, indent) # items) last_indent ls =
     ebind (close_lists (range (int indent) last_indent) ls)
       (\<lambda>(ls1, out1).
          let (ls2, out2) = open_lists t (range last_indent (int indent)) ls1;
              (ls3, out3) = open_line (int indent) ls2
          in ebind (List_render addr w h items (int indent) ls3)
               (\<lambda>out4. Inr (out1 @ out2 @ out3 @ [str_node addr w h nd] @ out4)))"

definition List_close :: "(token \<Rightarrow> string) \<Rightarrow> wikidot \<Rightarrow> block \<Rightarrow> error + writes" where
  "List_close addr w b =
     ebind (List_items w (matches b) None InlineParser_init [])
       (\<lambda>(node_tag_indent, p).
          List_render addr w (heap p) node_tag_indent (-1)
            \<lparr>opened_lists = [], inside_line = (\<lambda>i. False)\<rparr>)"

subsection \<open>Closing a block\<close>

definition close :: "(token \<Rightarrow> string) \<Rightarrow> wikidot \<Rightarrow> block \<Rightarrow> error + writes" where
  "close addr w b =
     (case block_cls b of
        Block \<Rightarrow> Block_close addr w b
      | Header \<Rightarrow> Header_close addr w b
      | HorizontalRule \<Rightarrow> Inr [''<hr />'' @ [newline]]
      | Table \<Rightarrow> Table_close addr w b
      | ListBlock \<Rightarrow> List_close addr w b
      | Empty \<Rightarrow> Inr []
      | Code \<Rightarrow> Inr (Code_close b)
      | Math \<Rightarrow> Inr (Math_close b)
      | Paragraph \<Rightarrow> Paragraph_close addr w b)"

section \<open>Div\<close>

text \<open>A \<open>dict\<close> with string keys: a list of pairs with one entry per key.\<close>

definition dict_set :: "string \<Rightarrow> string \<Rightarrow> (string \<times> string) list \<Rightarrow> (string \<times> string) list" where
  "dict_set k v d = filter (\<lambda>p. fst p \<noteq> k) d @ [(k, v)]"

text \<open>The order of Python strings, and \<open>sorted\<close> on a list of them.\<close>

fun str_less :: "string \<Rightarrow> string \<Rightarrow> bool" where
  "str_less [] [] = False"
| "str_less [] (y # ys) = True"
| "str_less (x # xs) [] = False"
| "str_less (x # xs) (y # ys) =
     ((of_char x :: nat) < of_char y \<or> (x = y \<and> str_less xs ys))"

fun insert_sorted :: "string \<Rightarrow> string list \<Rightarrow> string list" where
  "insert_sorted k [] = [k]"
| "insert_sorted k (x # xs) = (if str_less x k then x # insert_sorted k xs else k # x # xs)"

definition py_sorted :: "string list \<Rightarrow> string list" where
  "py_sorted ks = foldr insert_sorted ks []"

record Div =
  attributes :: "(string \<times> string) list"

text \<open>
  \<open>Div.parse_attributes\<close>: each round cuts an attribute off the front of \<open>rest\<close>; the
  counter bounds the rounds by the length of the text.
\<close>

fun parse_attributes_loop :: "nat \<Rightarrow> string \<Rightarrow> (string \<times> string) list \<Rightarrow> (string \<times> string) list" where
  "parse_attributes_loop 0 rest' d = d"
| "parse_attributes_loop (Suc n) rest' d =
     (if rest' = [] then d
      else case search RX_DIV_ATTR rest' of
        Some md \<Rightarrow>
          parse_attributes_loop n (group md ''rest'')
            (dict_set (group md ''name'')
               (if group md ''name'' = ''id'' then ''u-'' @ group md ''value'' else group md ''value'') d)
      | None \<Rightarrow> d)"

definition parse_attributes :: "match \<Rightarrow> (string \<times> string) list" where
  "parse_attributes m =
     (let rest' = (case group_opt m ''attributes'' of Some a \<Rightarrow> a | None \<Rightarrow> [])
      in parse_attributes_loop (length rest') rest' [])"

definition attributes_to_str :: "(string \<times> string) list \<Rightarrow> string" where
  "attributes_to_str d =
     join '' ''
       (concat (map (\<lambda>k. case map_of d k of Some v \<Rightarrow> [k @ ''='' @ dq @ v @ dq] | None \<Rightarrow> [])
                  [''id'', ''class'', ''style''])
        @ concat (map (\<lambda>k. if startswith k ''data-''
                            then [k @ ''='' @ dq @ (case map_of d k of Some v \<Rightarrow> v | None \<Rightarrow> []) @ dq]
                            else [])
                    (py_sorted (map fst d))))"

text \<open>\<open>Div.__init__\<close>: the object and the tag it writes.  \<open>Div.close\<close> writes the end tag.\<close>

definition Div_init :: "match \<Rightarrow> Div \<times> string" where
  "Div_init m =
     (let d = parse_attributes m; attrs = attributes_to_str d
      in (\<lparr>attributes = d\<rparr>,
          if attrs \<noteq> [] then ''<div '' @ attrs @ ''>'' @ [newline] else ''<div>'' @ [newline]))"

section \<open>Document driver\<close>

text \<open>
  What the driver writes to the output stream, in order.  The strings that blocks and the
  table of contents write are chunks; the container tags that the driver writes itself
  (for a change of the blockquote level, and for a div) are named, so that they can be
  told from text that a block happens to write.  The document is the concatenation of
  \<open>written_text\<close> over the list.
\<close>

datatype written =
    Chunk string
  | BlockquoteOpen
  | BlockquoteClose
  | DivOpen string
  | DivClose

definition written_text :: "written \<Rightarrow> string" where
  "written_text x =
     (case x of
        Chunk s \<Rightarrow> s
      | BlockquoteOpen \<Rightarrow> ''<blockquote>'' @ [newline]
      | BlockquoteClose \<Rightarrow> ''</blockquote>'' @ [newline]
      | DivOpen s \<Rightarrow> s
      | DivClose \<Rightarrow> ''</div>'' @ [newline])"

text \<open>
  A \<open>BlockParser\<close>.  \<open>wikidot\<close> is the \<open>Wikidot\<close> object it shares with its blocks (headers
  and equations take their numbers from it); \<open>parser_toc\<close> is the attribute \<open>toc\<close>, which is
  \<open>None\<close> during the first pass.  The stack \<open>divs\<close> is kept with its top first.
\<close>

record block_parser =
  wikidot :: wikidot
  current_block :: "block option"
  bq_level :: nat
  continued_line :: bool
  divs :: "Div list"
  parser_toc :: "toc_header list option"

definition Div_close :: "Div \<Rightarrow> written list" where
  "Div_close d = [DivClose]"

definition BlockParser_init :: "wikidot \<Rightarrow> block_parser" where
  "BlockParser_init w =
     \<lparr>wikidot = w, current_block = None, bq_level = 0, continued_line = False, divs = [],
      parser_toc = None\<rparr>"

definition TOC_LITERAL :: string where
  "TOC_LITERAL = ''[[toc]]''"

definition close_current_block :: "(token \<Rightarrow> string) \<Rightarrow> block_parser \<Rightarrow> error + (block_parser \<times> written list)" where
  "close_current_block addr bp =
     (case current_block bp of
        Some b \<Rightarrow>
          ebind (close addr (wikidot bp) b) (\<lambda>out. Inr (bp\<lparr>current_block := None\<rparr>, map Chunk out))
      | None \<Rightarrow> Inr (bp\<lparr>current_block := None\<rparr>, []))"

text \<open>\<open>List.__init__\<close>: the block type comes from the list marker of the match.\<close>

definition List_init :: "string \<Rightarrow> nat \<Rightarrow> match \<Rightarrow> error + block" where
  "List_init line lineno m =
     ebind (group_checked m ''raw_tag'')
       (\<lambda>r. ebind (raw_tag_to_tag r) (\<lambda>bt. Inr (Block_init ListBlock line lineno bt m)))"

definition Math_init :: "wikidot \<Rightarrow> string \<Rightarrow> nat \<Rightarrow> match \<Rightarrow> wikidot \<times> block" where
  "Math_init w line lineno m =
     (w\<lparr>next_eqn_number := next_eqn_number w + 1\<rparr>,
      (Block_init Math line lineno BLOCK_TYPE_MATH m)\<lparr>eqn_number := next_eqn_number w\<rparr>)"

definition block_factory :: "(token \<Rightarrow> string) \<Rightarrow> wikidot \<Rightarrow> string \<Rightarrow> nat \<Rightarrow> block_type \<Rightarrow> match \<Rightarrow> error + (wikidot \<times> block)" where
  "block_factory addr w line lineno bt m =
     (if bt = BLOCK_TYPE_UL then ebind (List_init line lineno m) (\<lambda>b. Inr (w, b))
      else if bt = BLOCK_TYPE_OL then ebind (List_init line lineno m) (\<lambda>b. Inr (w, b))
      else if bt = BLOCK_TYPE_EMPTY then Inr (w, Block_init Empty line lineno BLOCK_TYPE_EMPTY m)
      else if bt = BLOCK_TYPE_HR then Inr (w, Block_init HorizontalRule line lineno BLOCK_TYPE_HR m)
      else if bt = BLOCK_TYPE_CODE then Inr (w, Block_init Code line lineno BLOCK_TYPE_CODE m)
      else if bt = BLOCK_TYPE_MATH then Inr (Math_init w line lineno m)
      else if bt = BLOCK_TYPE_P then Inr (w, Block_init Paragraph line lineno BLOCK_TYPE_P m)
      else if bt = BLOCK_TYPE_HN then Header_init addr w line lineno m
      else if bt = BLOCK_TYPE_TABLE then Inr (w, Block_init Table line lineno BLOCK_TYPE_TABLE m)
      else Inr (w, Block_init Block line lineno bt m))"

definition is_instance :: "block option \<Rightarrow> block_class \<Rightarrow> bool" where
  "is_instance b c = (case b of Some b' \<Rightarrow> block_cls b' = c | None \<Rightarrow> False)"

text \<open>
  The tags \<open>adjust_blockquote_level\<close> writes when the level goes from \<open>old\<close> to \<open>new\<close>.
\<close>

definition blockquote_tags :: "nat \<Rightarrow> nat \<Rightarrow> written list" where
  "blockquote_tags old new =
     (if new > old then replicate (new - old) BlockquoteOpen
      else if new < old then replicate (old - new) BlockquoteClose
      else [])"

text \<open>
  \<open>adjust_blockquote_level\<close>: the state after it, what it wrote, and the line it returns
  (the text after the quote markers, or the line as it was).
\<close>

definition adjust_blockquote_level :: "(token \<Rightarrow> string) \<Rightarrow> block_parser \<Rightarrow> string \<Rightarrow> error + (block_parser \<times> written list \<times> string)" where
  "adjust_blockquote_level addr bp line =
     (if is_instance (current_block bp) Code then Inr (bp, [], line)
      else
        (let (new_bq_level, line') =
               (case search RX_BLOCKQUOTE line of
                  Some md \<Rightarrow> (length (group md ''greater_than_signs''), group md ''content'')
                | None \<Rightarrow> (0, line))
         in ebind (if new_bq_level \<noteq> bq_level bp then close_current_block addr bp else Inr (bp, []))
              (\<lambda>(bp1, out1).
                 Inr (bp1\<lparr>bq_level := new_bq_level\<rparr>,
                      out1 @ blockquote_tags (bq_level bp1) new_bq_level,
                      line'))))"

text \<open>\<open>check_for_div\<close>: the state, what it wrote, and the value it returns.\<close>

definition check_for_div :: "(token \<Rightarrow> string) \<Rightarrow> block_parser \<Rightarrow> string \<Rightarrow> error + (block_parser \<times> written list \<times> bool)" where
  "check_for_div addr bp line =
     (case search RX_DIV_START line of
        Some md \<Rightarrow>
          ebind (close_current_block addr bp)
            (\<lambda>(bp1, out1). let (d, tag') = Div_init md
                           in Inr (bp1\<lparr>divs := d # divs bp1\<rparr>, out1 @ [DivOpen tag'], True))
      | None \<Rightarrow>
      (case search RX_DIV_END line of
        Some md \<Rightarrow>
          ebind (close_current_block addr bp)
            (\<lambda>(bp1, out1). case divs bp1 of
                 d # ds \<Rightarrow> Inr (bp1\<lparr>divs := ds\<rparr>, out1 @ Div_close d, True)
               | [] \<Rightarrow> Inr (bp1, out1, True))
      | None \<Rightarrow> Inr (bp, [], False)))"

fun close_divs :: "Div list \<Rightarrow> written list" where
  "close_divs [] = []"
| "close_divs (d # ds) = Div_close d @ close_divs ds"

text \<open>
  The part of \<open>block_type_and_match\<close> for a current block that is fenced (\<open>Code\<close> with
  the code patterns, \<open>Math\<close> with the math patterns).
\<close>

definition fenced_type_and_match :: "(token \<Rightarrow> string) \<Rightarrow> block_parser \<Rightarrow> block \<Rightarrow> rx \<Rightarrow> rx \<Rightarrow> rx \<Rightarrow> block_type \<Rightarrow> string \<Rightarrow> error + (block_parser \<times> written list \<times> (block_type \<times> match) option)" where
  "fenced_type_and_match addr bp b rx_start rx_end rx_content bt line =
     (if search rx_start line \<noteq> None then
        Inr (bp\<lparr>current_block := Some (b\<lparr>input_nesting_level := input_nesting_level b + 1,
                                            output_nesting_level := output_nesting_level b + 1\<rparr>)\<rparr>,
             [], None)
      else if search rx_end line \<noteq> None then
        (if input_nesting_level b = 0 then
           ebind (close_current_block addr bp) (\<lambda>(bp1, out1). Inr (bp1, out1, None))
         else Inr (bp\<lparr>current_block := Some (b\<lparr>input_nesting_level := input_nesting_level b - 1\<rparr>)\<rparr>,
                   [], None))
      else case search rx_content line of
        Some md \<Rightarrow> Inr (bp, [], Some (bt, md))
      | None \<Rightarrow> Inl (UnparseableLine line))"

definition block_type_and_match :: "(token \<Rightarrow> string) \<Rightarrow> block_parser \<Rightarrow> string \<Rightarrow> error + (block_parser \<times> written list \<times> (block_type \<times> match) option)" where
  "block_type_and_match addr bp line =
     (case current_block bp of
        Some b \<Rightarrow>
          if block_cls b = Code then
            fenced_type_and_match addr bp b RX_CODE_START RX_CODE_END RX_CODE_CONTENT BLOCK_TYPE_CODE line
          else if block_cls b = Math then
            fenced_type_and_match addr bp b RX_MATH_START RX_MATH_END RX_MATH_CONTENT BLOCK_TYPE_MATH line
          else
            (case (if bq_level bp = 0 then
                     (case search RX_CODE_START line of
                        Some md \<Rightarrow> Some (BLOCK_TYPE_CODE, md)
                      | None \<Rightarrow> (case search RX_MATH_START line of
                                    Some md \<Rightarrow> Some (BLOCK_TYPE_MATH, md)
                                  | None \<Rightarrow> None))
                   else None) of
               Some r \<Rightarrow> ebind (close_current_block addr bp) (\<lambda>(bp1, out1). Inr (bp1, out1, Some r))
             | None \<Rightarrow>
                 ebind (analyze_line line (Some (block_type b))) (\<lambda>r. Inr (bp, [], Some r)))
      | None \<Rightarrow>
          (case (if bq_level bp = 0 then
                   (case search RX_CODE_START line of
                      Some md \<Rightarrow> Some (BLOCK_TYPE_CODE, md)
                    | None \<Rightarrow> (case search RX_MATH_START line of
                                  Some md \<Rightarrow> Some (BLOCK_TYPE_MATH, md)
                                | None \<Rightarrow> None))
                 else None) of
             Some r \<Rightarrow> ebind (close_current_block addr bp) (\<lambda>(bp1, out1). Inr (bp1, out1, Some r))
           | None \<Rightarrow> ebind (analyze_line line None) (\<lambda>r. Inr (bp, [], Some r))))"

text \<open>
  The last part of the loop body of \<open>_process_lines\<close>: the line goes to a new block or to
  the current one, and \<open>continued_line\<close> is set from the line.
\<close>

definition new_block :: "(token \<Rightarrow> string) \<Rightarrow> block_parser \<Rightarrow> string \<Rightarrow> nat \<Rightarrow> block_type \<Rightarrow> match \<Rightarrow> error + block_parser" where
  "new_block addr bp line lineno bt m =
     ebind (block_factory addr (wikidot bp) line lineno bt m)
       (\<lambda>(w, b). Inr (bp\<lparr>wikidot := w, current_block := Some b\<rparr>))"

definition place_line :: "(token \<Rightarrow> string) \<Rightarrow> block_parser \<Rightarrow> string \<Rightarrow> nat \<Rightarrow> block_type \<Rightarrow> match \<Rightarrow> error + (block_parser \<times> written list)" where
  "place_line addr bp line lineno bt m =
     ebind
       (case current_block bp of
          None \<Rightarrow> ebind (new_block addr bp line lineno bt m) (\<lambda>bp1. Inr (bp1, []))
        | Some b \<Rightarrow>
            if continued_line bp then
              ebind (add_line b line lineno bt m True) (\<lambda>b'. Inr (bp\<lparr>current_block := Some b'\<rparr>, []))
            else if bt = block_type b \<and> multiline_type b then
              ebind (add_line b line lineno bt m False) (\<lambda>b'. Inr (bp\<lparr>current_block := Some b'\<rparr>, []))
            else
              ebind (close_current_block addr bp)
                (\<lambda>(bp1, out1). ebind (new_block addr bp1 line lineno bt m) (\<lambda>bp2. Inr (bp2, out1))))
       (\<lambda>(bp', out). Inr (bp'\<lparr>continued_line := endswith line '' _''\<rparr>, out))"

text \<open>
  One round of the loop of \<open>_process_lines\<close>.  The last component of the result tells
  whether the round ran to the end of the loop body; it is \<open>False\<close> when the round left
  through one of the four \<open>continue\<close> statements.
\<close>

definition process_line :: "(token \<Rightarrow> string) \<Rightarrow> block_parser \<Rightarrow> nat \<Rightarrow> string \<Rightarrow> error + (block_parser \<times> written list \<times> bool)" where
  "process_line addr bp lineno raw_line =
     ebind (adjust_blockquote_level addr bp (rstrip raw_line))
       (\<lambda>(bp1, out1, line).
          if line = TOC_LITERAL \<and> parser_toc bp1 \<noteq> None
          then Inr (bp1, out1 @ map Chunk (TOC_close (case parser_toc bp1 of Some t \<Rightarrow> t | None \<Rightarrow> [])),
                    False)
          else ebind (check_for_div addr bp1 line)
            (\<lambda>(bp2, out2, is_div).
               if is_div then Inr (bp2, out1 @ out2, False)
               else ebind (block_type_and_match addr bp2 line)
                 (\<lambda>(bp3, out3, r).
                    case r of
                      None \<Rightarrow> Inr (bp3, out1 @ out2 @ out3, False)
                    | Some (bt, m) \<Rightarrow>
                        if bt = BLOCK_TYPE_EMPTY \<and> bq_level bp3 > 0
                        then Inr (bp3, out1 @ out2 @ out3, False)
                        else ebind (place_line addr bp3 line lineno bt m)
                               (\<lambda>(bp4, out4). Inr (bp4, out1 @ out2 @ out3 @ out4, True)))))"

fun process_lines_loop :: "(token \<Rightarrow> string) \<Rightarrow> block_parser \<Rightarrow> nat \<Rightarrow> string list \<Rightarrow> error + (block_parser \<times> written list)" where
  "process_lines_loop addr bp lineno [] = Inr (bp, [])"
| "process_lines_loop addr bp lineno (l # ls) =
     ebind (process_line addr bp lineno l)
       (\<lambda>(bp1, out1, reached_end). ebind (process_lines_loop addr bp1 (lineno + 1) ls)
          (\<lambda>(bp2, out2). Inr (bp2, out1 @ out2)))"

text \<open>
  \<open>_process_lines\<close>: the loop over the lines, numbered from 1, then the closing of the
  current block and of the blockquotes.
\<close>

definition process_lines_pass :: "(token \<Rightarrow> string) \<Rightarrow> block_parser \<Rightarrow> string list \<Rightarrow> error + (block_parser \<times> written list)" where
  "process_lines_pass addr bp input_lines =
     ebind (process_lines_loop addr bp 1 input_lines)
       (\<lambda>(bp1, out1). ebind (close_current_block addr bp1)
          (\<lambda>(bp2, out2). ebind (adjust_blockquote_level addr bp2 [])
             (\<lambda>(bp3, out3, line). Inr (bp3, out1 @ out2 @ out3))))"

text \<open>
  \<open>process_lines\<close>: the first pass writes to a \<open>NullOutputStream\<close>, so its output is
  dropped; then the counters are reset, the parser takes the table of contents the
  first pass has collected, and the second pass writes the document.
\<close>

definition process_lines :: "(token \<Rightarrow> string) \<Rightarrow> block_parser \<Rightarrow> string list \<Rightarrow> error + (block_parser \<times> written list)" where
  "process_lines addr bp input_lines =
     ebind (process_lines_pass addr bp input_lines)
       (\<lambda>(bp1, out1).
          process_lines_pass addr
            (bp1\<lparr>wikidot := (wikidot bp1)\<lparr>next_toc_number := 0, next_eqn_number := 1, toc := []\<rparr>,
                 parser_toc := Some (toc (wikidot bp1))\<rparr>)
            input_lines)"

text \<open>\<open>Wikidot.__init__\<close> from the three arguments of the command line.\<close>

definition Wikidot_init :: "string \<Rightarrow> string \<Rightarrow> string \<Rightarrow> wikidot" where
  "Wikidot_init image_prefix' link_prefix' link_suffix' =
     \<lparr>image_prefix = image_prefix', link_prefix = link_prefix', link_suffix = link_suffix',
      toc = [], next_toc_number = 0, next_eqn_number = 1\<rparr>"

text \<open>
  \<open>Wikidot.to_html\<close>, on the lines that \<open>input_stream.readlines()\<close> returned: the
  \<open>Wikidot\<close> object after the conversion and the text written to \<open>output_stream\<close>.
\<close>

definition to_html :: "(token \<Rightarrow> string) \<Rightarrow> wikidot \<Rightarrow> string list \<Rightarrow> error + (wikidot \<times> string)" where
  "to_html addr w input_lines =
     ebind (process_lines addr (BlockParser_init w) input_lines)
       (\<lambda>(bp, out). Inr (wikidot bp, concat (map written_text out)))"

text \<open>
  \<open>readlines()\<close> of a text stream: the text cut after every newline, the newline kept
  at the end of its line.
\<close>

fun readlines_acc :: "string \<Rightarrow> string \<Rightarrow> string list" where
  "readlines_acc acc [] = (if acc = [] then [] else [rev acc])"
| "readlines_acc acc (c # cs) =
     (if c = newline then rev (c # acc) # readlines_acc [] cs else readlines_acc (c # acc) cs)"

definition readlines :: "string \<Rightarrow> string list" where
  "readlines text = readlines_acc [] text"

declare closed.simps [simp del]
declare str_node.simps [simp del]
declare str_nat.simps [simp del]

section \<open>Reference definitions\<close>

text \<open>
  Definitions that the statements below use to describe what the program writes.  They
  are not part of the program.
\<close>

subsection \<open>Fenced blocks\<close>

text \<open>The test of \<open>write_code_content\<close> and \<open>write_math_content\<close> for a stored line.\<close>

definition blank_content :: "match \<Rightarrow> bool" where
  "blank_content m = (search RX_BLANK_LINE (group m ''content'') \<noteq> None)"

text \<open>The stored lines, escaped and joined with newlines.\<close>

definition escaped_lines :: "match list \<Rightarrow> string" where
  "escaped_lines mds = join [newline] (map (\<lambda>m. html_escape (group m ''content'')) mds)"

text \<open>
  The stored lines as the claim has them: without the whitespace-only lines at the start
  and at the end.
\<close>

definition trim_blank :: "match list \<Rightarrow> match list" where
  "trim_blank mds = rev (dropWhile blank_content (rev (dropWhile blank_content mds)))"

text \<open>The stored lines without the first one, when that is whitespace only.\<close>

definition drop_first_blank :: "match list \<Rightarrow> match list" where
  "drop_first_blank mds =
     (case mds of [] \<Rightarrow> [] | m # mds' \<Rightarrow> if blank_content m then mds' else m # mds')"

text \<open>
  The lines stored by a code block for the input \<open>[[code]]\<close>, \<open>x\<close> and an empty line.
\<close>

definition code_x_blank :: "match list" where
  "code_x_blank = [the (search RX_CODE_START ''[[code]]''), the (search RX_CODE_CONTENT ''x''),
     the (search RX_CODE_CONTENT [])]"

subsection \<open>Blockquote tags\<close>

text \<open>The number of blockquote tags opened minus the number closed, in what was written.\<close>

definition blockquote_balance :: "written list \<Rightarrow> int" where
  "blockquote_balance out =
     int (count_list out BlockquoteOpen) - int (count_list out BlockquoteClose)"

text \<open>The conversion of the one-line document \<open>> quoted\<close>.\<close>

definition quoted_run :: "error + (block_parser \<times> written list)" where
  "quoted_run = process_lines (\<lambda>t. []) (BlockParser_init (Wikidot_init [] [] [])) [''> quoted'']"

subsection \<open>Driver states\<close>

text \<open>The state after the first line \<open>> a\<close> of a document: one blockquote, a paragraph open.\<close>

definition quoted_state :: block_parser where
  "quoted_state =
     fst (projr (process_line (\<lambda>t. []) (BlockParser_init (Wikidot_init [] [] [])) 1 ''> a''))"

text \<open>The round of the loop for the first line \<open>a _\<close> of a document.\<close>

definition continued_run :: "error + (block_parser \<times> written list \<times> bool)" where
  "continued_run = process_line (\<lambda>t. []) (BlockParser_init (Wikidot_init [] [] [])) 1 ''a _''"

subsection \<open>Inline nodes\<close>

text \<open>
  \<open>str(child)\<close> for a child of the node \<open>i\<close>, as \<open>str_node\<close> computes it for each element
  of \<open>children\<close>.
\<close>

definition str_child :: "(token \<Rightarrow> string) \<Rightarrow> wikidot \<Rightarrow> node list \<Rightarrow> nat \<Rightarrow> child \<Rightarrow> string" where
  "str_child addr w h i c =
     (case c of
        ChildStr s \<Rightarrow> s
      | ChildNode j \<Rightarrow> if i < j \<and> j < length h then str_node addr w h j else []
      | ChildText t \<Rightarrow> str_text w t
      | ChildLineBreak \<Rightarrow> ''<br />'' @ [newline]
      | ChildToken t \<Rightarrow> str_token addr t)"

text \<open>The parser after the content \<open>**a\<close>: a bold node open and never closed.\<close>

definition bold_open_parser :: inline_parser where
  "bold_open_parser = projr (parse (Wikidot_init [] [] []) (token_lex ''**a'') InlineParser_init)"

text \<open>The parser after the content \<open>[[span class="x"]]a\<close>: a span open and never closed.\<close>

definition span_open_parser :: inline_parser where
  "span_open_parser =
     projr (parse (Wikidot_init [] [] []) (token_lex (''[[span class='' @ dq @ ''x'' @ dq @ '']]a''))
        InlineParser_init)"

text \<open>The parser after the tokens \<open>##red|\<close> and \<open>a\<close>: a color node open.\<close>

definition red_open_parser :: inline_parser where
  "red_open_parser =
     projr (parse (Wikidot_init [] [] []) [TStr ''##red|'', TStr ''a''] InlineParser_init)"

subsection \<open>Table cells\<close>

text \<open>
  The number of empty cells that come immediately before the cell \<open>j\<close> of a row, the
  indices of the cells that are not empty, and the element written for a cell: the cell
  type, the \<open>colspan\<close> attribute when the span exceeds 1, the style when there is an
  alignment, and the rendered content.
\<close>

definition absorbed :: "string list \<Rightarrow> nat \<Rightarrow> nat" where
  "absorbed cells j = length (takeWhile (\<lambda>c. c = []) (rev (take j cells)))"

definition nonempty_idx :: "string list \<Rightarrow> nat list" where
  "nonempty_idx cells = filter (\<lambda>j. cells ! j \<noteq> []) [0..<length cells]"

definition cell_element :: "string \<Rightarrow> nat \<Rightarrow> string \<Rightarrow> string \<Rightarrow> string" where
  "cell_element ct span align inner =
     ''<'' @ ct
     @ (if span > 1 then '' colspan='' @ dq @ str_nat span @ dq else [])
     @ (if align \<noteq> [] then '' style='' @ dq @ ''text-align: '' @ align @ '';'' @ dq else [])
     @ ''>'' @ inner @ ''</'' @ ct @ ''>'' @ [newline]"

definition cell_inner :: "(token \<Rightarrow> string) \<Rightarrow> wikidot \<Rightarrow> string \<Rightarrow> string" where
  "cell_inner addr w c =
     (case parse_content w c InlineParser_init of
        Inr p \<Rightarrow> str_top addr w p
      | Inl e \<Rightarrow> [])"

definition rendered_cell :: "(token \<Rightarrow> string) \<Rightarrow> wikidot \<Rightarrow> nat \<Rightarrow> string \<Rightarrow> string" where
  "rendered_cell addr w span cell =
     (let a = analyze_cell cell Table_state_init
      in cell_element (cell_type a) span (text_align a) (cell_inner addr w (cell_content a)))"

text \<open>The match of the table line \<open>||a||||~ b||\<close>, and the match of its full row.\<close>

definition row_match :: match where
  "row_match = snd (projr (analyze_line ''||a||||~ b||'' None))"

definition row_md :: match where
  "row_md = the (search RX_FULL_ROW (group row_match ''content''))"

subsection \<open>More driver states\<close>

text \<open>
  The round for the line \<open>[[/div]]\<close> after the line \<open>a _\<close>, and the round for the line
  \<open>>\<close> after the line \<open>> a\<close>.
\<close>

definition skipped_div_run :: "error + (block_parser \<times> written list \<times> bool)" where
  "skipped_div_run = process_line (\<lambda>t. []) (fst (projr continued_run)) 2 ''[[/div]]''"

definition skipped_quote_run :: "error + (block_parser \<times> written list \<times> bool)" where
  "skipped_quote_run = process_line (\<lambda>t. []) quoted_state 2 ''>''"

text \<open>The state after the first line \<open>hello\<close> of a document: a paragraph open.\<close>

definition open_paragraph_state :: block_parser where
  "open_paragraph_state =
     fst (projr (process_line (\<lambda>t. []) (BlockParser_init (Wikidot_init [] [] [])) 1 ''hello''))"

subsection \<open>More parser states\<close>

text \<open>
  The parser after \<open>##red|\<close> and \<open>a\<close> followed by the start of a comment, of a literal
  span, and of an HTML-entity literal span.
\<close>

definition red_comment_parser :: inline_parser where
  "red_comment_parser =
     projr (parse (Wikidot_init [] [] []) [TStr ''##red|'', TStr ''a'', TStr ''[!--''] InlineParser_init)"

definition red_literal_parser :: inline_parser where
  "red_literal_parser =
     projr (parse (Wikidot_init [] [] []) [TStr ''##red|'', TStr ''a'', LITERAL_START_TOKEN]
        InlineParser_init)"

definition red_entity_parser :: inline_parser where
  "red_entity_parser =
     projr (parse (Wikidot_init [] [] []) [TStr ''##red|'', TStr ''a'', HTML_ENTITY_LITERAL_START_TOKEN]
        InlineParser_init)"

text \<open>
  The parser with the string \<open>s\<close> appended to the children of the node on top of the
  stack.
\<close>

definition with_text :: "string \<Rightarrow> inline_parser \<Rightarrow> inline_parser" where
  "with_text s p =
     p\<lparr>heap := (heap p)[hd (nodes p) :=
            (heap p ! hd (nodes p))\<lparr>children := children (heap p ! hd (nodes p)) @ [ChildStr s]\<rparr>]\<rparr>"

section \<open>Properties of the matcher\<close>

lemma star_ms_self: "st \<in> set (star_ms g f n st)"
  by (cases n) (auto simp: Let_def)

lemma ms_Seq_set: "set (ms (Seq a b) st) = (\<Union>st1 \<in> set (ms a st). set (ms b st1))"
  by simp

text \<open>A lazy \<open>.*?\<close> can take all of a text that has no newline.\<close>

lemma lazy_any_all:
  "newline \<notin> set (rest st) \<Longrightarrow> length (rest st) \<le> n \<Longrightarrow>
   \<exists>st' \<in> set (star_ms False (ms Any) n st). rest st' = [] \<and> groups st' = groups st"
proof (induction n arbitrary: st)
  case 0
  then show ?case by simp
next
  case (Suc n)
  show ?case
  proof (cases "rest st")
    case Nil
    then show ?thesis by (auto simp: Let_def)
  next
    case (Cons c cs)
    let ?st1 = "st\<lparr>consumed := c # consumed st, rest := cs\<rparr>"
    from Cons Suc.prems have c: "c \<noteq> newline" "newline \<notin> set (rest ?st1)" "length (rest ?st1) \<le> n"
      by auto
    from Suc.IH[OF c(2,3)] obtain st' where
      st': "st' \<in> set (star_ms False (ms Any) n ?st1)" "rest st' = []" "groups st' = groups st"
      by auto
    have "ms Any st = [?st1]" using Cons c(1) by (simp add: step_char_def)
    then have "st' \<in> set (star_ms False (ms Any) (Suc n) st)"
      using st'(1) Cons by (simp add: Let_def)
    with st' show ?thesis by blast
  qed
qed

lemma search_from_first: "match_at r bef s = Some m \<Longrightarrow> search_from r bef s = Some m"
  by (cases s) auto

lemma match_at_None_iff:
  "match_at r bef s = None \<longleftrightarrow>
   ms r \<lparr>consumed = bef, rest = s, groups = map (\<lambda>n. (n, None)) (group_names r)\<rparr> = []"
  by (auto simp: match_at_def split: list.splits)

section \<open>The paragraph rule is a fallback for every line\<close>

lemma RX_P_ms:
  assumes "consumed st0 = []" and "newline \<notin> set (rest st0)"
  shows "ms RX_P st0 \<noteq> []"
proof -
  from lazy_any_all[of st0 "length (rest st0)"] assms obtain st1 where
    st1: "st1 \<in> set (star_ms False (ms Any) (length (rest st0)) st0)" "rest st1 = []" by auto
  let ?st2 = "bind_group ''content'' st0 st1"
  have r2: "rest ?st2 = []" using st1(2) by (simp add: bind_group_def)
  have a: "st0 \<in> set (ms (Star True ws) st0)" by (simp add: star_ms_self)
  have b: "?st2 \<in> set (ms (Grp ''content'' (Star False Any)) st0)" using st1(1) by auto
  have c: "?st2 \<in> set (ms br_group ?st2)" by (simp add: br_group_def)
  have d: "?st2 \<in> set (ms Eol ?st2)" using r2 by simp
  have e: "st0 \<in> set (ms Bol st0)" using assms(1) by simp
  have "?st2 \<in> set (ms (Seq br_group Eol) ?st2)"
    unfolding ms_Seq_set using c d by blast
  then have "?st2 \<in> set (ms (Seq (Grp ''content'' (Star False Any)) (Seq br_group Eol)) st0)"
    unfolding ms_Seq_set using b by blast
  then have "?st2 \<in> set (ms (Seq (Star True ws) (Seq (Grp ''content'' (Star False Any))
                 (Seq br_group Eol))) st0)"
    unfolding ms_Seq_set using a by blast
  then have "?st2 \<in> set (ms (Seq Bol (Seq (Star True ws) (Seq (Grp ''content'' (Star False Any))
                 (Seq br_group Eol)))) st0)"
    unfolding ms_Seq_set using e by blast
  then have "?st2 \<in> set (ms RX_P st0)" by (simp only: RX_P_def seqs.simps)
  then show ?thesis by auto
qed

lemma RX_P_matches:
  assumes "newline \<notin> set s"
  shows "search RX_P s \<noteq> None"
proof -
  have "match_at RX_P [] s \<noteq> None"
    unfolding match_at_None_iff by (rule RX_P_ms) (use assms in simp_all)
  then show ?thesis unfolding search_def using search_from_first by fastforce
qed

text \<open>
  C5.  A line is what \<open>readlines\<close> and \<open>rstrip\<close> leave of the input: a string without a
  newline.  On every line, whatever block is open, the paragraph pattern matches, so
  \<open>analyze_line\<close> returns a block type and a match and never raises ``unparseable line''.
\<close>

theorem analyze_line_total:
  "newline \<notin> set line \<Longrightarrow> \<exists>bt md. analyze_line line current_block_type = Inr (bt, md)"
  using RX_P_matches[of line]
  by (auto simp: analyze_line_def Let_def split: option.splits)

theorem analyze_line_total_witness:
  "newline \<notin> set ''hello'' \<and> (\<exists>bt md. analyze_line ''hello'' None = Inr (bt, md))"
  using analyze_line_total[of "''hello''" None] by (simp add: newline_def)

section \<open>Fenced blocks keep their blank lines\<close>

lemma join_Cons: "join sep (x # xs) = (if xs = [] then x else x @ sep @ join sep xs)"
  by (cases xs) simp_all

lemma write_fenced_tail:
  "0 < i \<Longrightarrow> concat (write_fenced_lines i (i + length mds) mds) = escaped_lines mds"
proof (induction mds arbitrary: i)
  case Nil
  then show ?case by (simp add: escaped_lines_def)
next
  case (Cons m mds)
  have "concat (write_fenced_lines (i + 1) (i + 1 + length mds) mds) = escaped_lines mds"
    by (rule Cons.IH) simp
  then show ?case using Cons.prems
    by (simp add: escaped_lines_def join_Cons)
qed

lemma write_fenced_all:
  "concat (write_fenced_lines 0 (length mds) mds) = escaped_lines (drop_first_blank mds)"
proof (cases mds)
  case Nil
  then show ?thesis by (simp add: escaped_lines_def drop_first_blank_def)
next
  case (Cons m mds')
  have t: "concat (write_fenced_lines 1 (1 + length mds') mds') = escaped_lines mds'"
    by (rule write_fenced_tail) simp
  show ?thesis using t Cons
    by (simp add: drop_first_blank_def blank_content_def escaped_lines_def join_Cons)
qed

text \<open>
  C4, as the code has it.  A code or math block writes its stored lines, escaped and
  joined by newlines, between the markers of the nested fences; of the stored lines only
  the first (the text after the opening fence on its line) is left out, when it is
  whitespace only.  Whitespace-only lines after it, also the last ones, are written.
\<close>

theorem fenced_content_first_line_only:
  "concat (write_code_content b) =
     concat (replicate (nat (output_nesting_level b)) (''[[code]]'' @ [newline]))
     @ escaped_lines (drop_first_blank (matches b))
     @ concat (replicate (nat (output_nesting_level b)) ([newline] @ ''[[/code]]''))
   \<and> concat (write_math_content b) =
     concat (replicate (nat (output_nesting_level b)) (''[[math]]'' @ [newline]))
     @ escaped_lines (drop_first_blank (matches b))
     @ concat (replicate (nat (output_nesting_level b)) ([newline] @ ''[[/math]]''))"
  by (simp add: write_code_content_def write_math_content_def write_fenced_all)

text \<open>
  C4 as stated fails: the document \<open>[[code]]\<close>, \<open>x\<close>, an empty line, \<open>[[/code]]\<close> is
  rendered with the empty line before \<open></code>\<close>, where the claim has the content end
  with \<open>x\<close>.
\<close>

theorem fenced_content_counterexample:
  "to_html (\<lambda>t. []) (Wikidot_init [] [] [])
     [''[[code]]'' @ [newline], ''x'' @ [newline], [newline], ''[[/code]]'' @ [newline]]
   = Inr (Wikidot_init [] [] [],
       ''<div class='' @ dq @ ''code'' @ dq @ ''>'' @ [newline] @ ''<pre>'' @ [newline]
       @ ''<code>x'' @ [newline] @ ''</code>'' @ [newline] @ ''</pre></div>'' @ [newline])
   \<and> concat (write_fenced_lines 0 3 code_x_blank) = ''x'' @ [newline]
   \<and> escaped_lines (trim_blank code_x_blank) = ''x''"
  by code_simp

section \<open>Blockquote tags are balanced\<close>

lemma ebind_Inr: "ebind m f = Inr y \<longleftrightarrow> (\<exists>x. m = Inr x \<and> f x = Inr y)"
  by (cases m) auto

lemma count_list_append': "count_list (xs @ ys) x = count_list xs x + count_list ys x"
  by (induction xs) auto

lemma count_list_replicate': "count_list (replicate n y) x = (if x = y then n else 0)"
  by (induction n) auto

lemma balance_append [simp]:
  "blockquote_balance (a @ b) = blockquote_balance a + blockquote_balance b"
  by (simp add: blockquote_balance_def count_list_append')

lemma balance_Nil [simp]: "blockquote_balance [] = 0"
  by (simp add: blockquote_balance_def)

lemma balance_chunks [simp]: "blockquote_balance (map Chunk xs) = 0"
  by (induction xs) (auto simp: blockquote_balance_def)

lemma balance_div [simp]: "blockquote_balance [DivOpen s] = 0" "blockquote_balance [DivClose] = 0"
  by (simp_all add: blockquote_balance_def)

lemma balance_tags [simp]: "blockquote_balance (blockquote_tags old new) = int new - int old"
  by (auto simp: blockquote_balance_def blockquote_tags_def count_list_replicate')

lemma close_current_block_Inr:
  "close_current_block addr bp = Inr (bp1, out1) \<Longrightarrow>
   bp1 = bp\<lparr>current_block := None\<rparr> \<and> (\<exists>ss. out1 = map Chunk ss)"
  by (cases "current_block bp") (auto simp: close_current_block_def ebind_Inr)

lemma close_current_block_bq:
  "close_current_block addr bp = Inr (bp1, out1) \<Longrightarrow>
   bp1 = bp\<lparr>current_block := None\<rparr> \<and> blockquote_balance out1 = 0"
  using close_current_block_Inr[of addr bp bp1 out1] by auto

lemma adjust_bq:
  assumes "adjust_blockquote_level addr bp line = Inr (bp', out, line')"
  shows "blockquote_balance out = int (bq_level bp') - int (bq_level bp)"
proof (cases "is_instance (current_block bp) Code")
  case True
  with assms show ?thesis by (simp add: adjust_blockquote_level_def)
next
  case False
  obtain n l where nl: "(case search RX_BLOCKQUOTE line of
                  Some md \<Rightarrow> (length (group md ''greater_than_signs''), group md ''content'')
                | None \<Rightarrow> (0, line)) = (n, l)" by fastforce
  show ?thesis
  proof (cases "n \<noteq> bq_level bp")
    case True
    with assms False nl obtain bp1 out1 where
      c: "close_current_block addr bp = Inr (bp1, out1)"
      and r: "bp' = bp1\<lparr>bq_level := n\<rparr>" "out = out1 @ blockquote_tags (bq_level bp1) n"
      by (auto simp: adjust_blockquote_level_def ebind_Inr)
    from close_current_block_bq[OF c] r show ?thesis by simp
  next
    case False
    with assms \<open>\<not> is_instance (current_block bp) Code\<close> nl show ?thesis
      by (auto simp: adjust_blockquote_level_def)
  qed
qed

lemma adjust_empty_level:
  assumes "adjust_blockquote_level addr bp [] = Inr (bp', out, line')" and "current_block bp = None"
  shows "bq_level bp' = 0"
proof -
  have s: "search RX_BLOCKQUOTE [] = None" by code_simp
  from assms s show ?thesis
    by (auto simp: adjust_blockquote_level_def is_instance_def ebind_Inr split: if_splits)
qed

lemma check_for_div_bq:
  assumes "check_for_div addr bp line = Inr (bp', out, r)"
  shows "bq_level bp' = bq_level bp \<and> blockquote_balance out = 0"
proof (cases "search RX_DIV_START line")
  case (Some md)
  obtain d tg where dt: "Div_init md = (d, tg)" by (cases "Div_init md")
  with Some assms obtain bp1 out1 where c: "close_current_block addr bp = Inr (bp1, out1)"
    and r: "bp' = bp1\<lparr>divs := d # divs bp1\<rparr>" "out = out1 @ [DivOpen tg]"
    by (auto simp: check_for_div_def ebind_Inr)
  from close_current_block_bq[OF c] r show ?thesis by simp
next
  case None
  show ?thesis
  proof (cases "search RX_DIV_END line")
    case (Some md)
    from assms None Some have e: "ebind (close_current_block addr bp)
            (\<lambda>(bp1, out1). case divs bp1 of
                 d # ds \<Rightarrow> Inr (bp1\<lparr>divs := ds\<rparr>, out1 @ Div_close d, True)
               | [] \<Rightarrow> Inr (bp1, out1, True)) = Inr (bp', out, r)"
      by (simp add: check_for_div_def)
    then obtain bp1 out1 where c: "close_current_block addr bp = Inr (bp1, out1)"
      and r: "(case divs bp1 of
                 d # ds \<Rightarrow> Inr (bp1\<lparr>divs := ds\<rparr>, out1 @ Div_close d, True)
               | [] \<Rightarrow> Inr (bp1, out1, True)) = (Inr (bp', out, r) :: error + (block_parser \<times> written list \<times> bool))"
      by (auto simp: ebind_Inr)
    from close_current_block_bq[OF c] r show ?thesis
      by (cases "divs bp1") (auto simp: Div_close_def)
  next
    case None
    with assms \<open>search RX_DIV_START line = None\<close> show ?thesis
      by (simp add: check_for_div_def)
  qed
qed

lemma fenced_bq:
  assumes "fenced_type_and_match addr bp b rs re rc bt line = Inr (bp', out, r)"
  shows "bq_level bp' = bq_level bp \<and> blockquote_balance out = 0"
  using assms close_current_block_bq[of addr bp]
  by (auto simp: fenced_type_and_match_def ebind_Inr split: if_splits option.splits)

lemma block_type_and_match_bq:
  assumes "block_type_and_match addr bp line = Inr (bp', out, r)"
  shows "bq_level bp' = bq_level bp \<and> blockquote_balance out = 0"
  using assms close_current_block_bq[of addr bp] fenced_bq[of addr bp]
  by (auto simp: block_type_and_match_def ebind_Inr split: if_splits option.splits)

lemma place_line_bq:
  assumes "place_line addr bp line lineno bt m = Inr (bp', out)"
  shows "bq_level bp' = bq_level bp \<and> blockquote_balance out = 0"
  using assms close_current_block_bq[of addr bp]
  by (auto simp: place_line_def new_block_def ebind_Inr split: if_splits option.splits)

lemma process_line_bq:
  assumes "process_line addr bp lineno raw = Inr (bp', out, fl)"
  shows "blockquote_balance out = int (bq_level bp') - int (bq_level bp)"
proof -
  from assms obtain bp1 out1 line where
    a: "adjust_blockquote_level addr bp (rstrip raw) = Inr (bp1, out1, line)"
    by (auto simp: process_line_def ebind_Inr)
  note A = adjust_bq[OF a]
  show ?thesis
  proof (cases "line = TOC_LITERAL \<and> parser_toc bp1 \<noteq> None")
    case True
    with assms a A show ?thesis by (auto simp: process_line_def)
  next
    case False
    with assms a obtain bp2 out2 isdiv where
      d: "check_for_div addr bp1 line = Inr (bp2, out2, isdiv)"
      by (auto simp: process_line_def ebind_Inr)
    note D = check_for_div_bq[OF d]
    show ?thesis
    proof (cases isdiv)
      case True
      with assms a d False A D show ?thesis by (auto simp: process_line_def)
    next
      case nd: False
      with assms a d False obtain bp3 out3 r where
        t: "block_type_and_match addr bp2 line = Inr (bp3, out3, r)"
        by (auto simp: process_line_def ebind_Inr)
      note T = block_type_and_match_bq[OF t]
      show ?thesis
      proof (cases r)
        case None
        with assms a d t False nd A D T show ?thesis by (auto simp: process_line_def)
      next
        case (Some btm)
        obtain bt m where btm: "btm = (bt, m)" by (cases btm)
        show ?thesis
        proof (cases "bt = BLOCK_TYPE_EMPTY \<and> bq_level bp3 > 0")
          case True
          with assms a d t False nd Some btm A D T show ?thesis by (auto simp: process_line_def)
        next
          case ne: False
          with assms a d t False nd Some btm obtain bp4 out4 where
            p: "place_line addr bp3 line lineno bt m = Inr (bp4, out4)"
            and res: "bp' = bp4" "out = out1 @ out2 @ out3 @ out4"
            by (auto simp: process_line_def ebind_Inr)
          from place_line_bq[OF p] res A D T show ?thesis by simp
        qed
      qed
    qed
  qed
qed

lemma process_lines_loop_bq:
  "process_lines_loop addr bp lineno ls = Inr (bp', out) \<Longrightarrow>
   blockquote_balance out = int (bq_level bp') - int (bq_level bp)"
proof (induction ls arbitrary: bp lineno out bp')
  case Nil
  then show ?case by simp
next
  case (Cons l ls)
  from Cons.prems obtain bp1 out1 fl bp2 out2 where
    s: "process_line addr bp lineno l = Inr (bp1, out1, fl)"
    and r: "process_lines_loop addr bp1 (lineno + 1) ls = Inr (bp2, out2)"
    and e: "bp' = bp2" "out = out1 @ out2"
    by (auto simp: ebind_Inr)
  from process_line_bq[OF s] Cons.IH[OF r] e show ?case by simp
qed

lemma process_lines_pass_bq:
  assumes "process_lines_pass addr bp ls = Inr (bp', out)"
  shows "bq_level bp' = 0 \<and> blockquote_balance out = - int (bq_level bp)"
proof -
  from assms obtain bp1 out1 bp2 out2 bp3 out3 line where
    l: "process_lines_loop addr bp 1 ls = Inr (bp1, out1)"
    and c: "close_current_block addr bp1 = Inr (bp2, out2)"
    and a: "adjust_blockquote_level addr bp2 [] = Inr (bp3, out3, line)"
    and e: "bp' = bp3" "out = out1 @ out2 @ out3"
    by (auto simp: process_lines_pass_def ebind_Inr)
  from close_current_block_bq[OF c] have c2: "current_block bp2 = None" "bq_level bp2 = bq_level bp1"
    "blockquote_balance out2 = 0" by auto
  from adjust_empty_level[OF a c2(1)] have z: "bq_level bp3 = 0" .
  from process_lines_loop_bq[OF l] adjust_bq[OF a] c2 z e show ?thesis by simp
qed

text \<open>
  C3.  For every document whose conversion runs to its end, the second pass (the one
  that writes the document) writes as many blockquote open tags as close tags; the
  first pass, whose output is dropped, leaves the level at 0 for it.
\<close>

theorem blockquote_tags_balanced:
  assumes "process_lines addr (BlockParser_init w) input_lines = Inr (bp', out)"
  shows "count_list out BlockquoteOpen = count_list out BlockquoteClose"
proof -
  from assms obtain bp1 out1 where
    p1: "process_lines_pass addr (BlockParser_init w) input_lines = Inr (bp1, out1)"
    and p2: "process_lines_pass addr
            (bp1\<lparr>wikidot := (wikidot bp1)\<lparr>next_toc_number := 0, next_eqn_number := 1, toc := []\<rparr>,
                 parser_toc := Some (toc (wikidot bp1))\<rparr>) input_lines = Inr (bp', out)"
    by (auto simp: process_lines_def ebind_Inr)
  from process_lines_pass_bq[OF p1] have "bq_level bp1 = 0" by simp
  with process_lines_pass_bq[OF p2] have "blockquote_balance out = 0" by simp
  then show ?thesis by (simp add: blockquote_balance_def)
qed

theorem blockquote_tags_balanced_witness:
  "quoted_run = Inr (fst (projr quoted_run), snd (projr quoted_run))
   \<and> snd (projr quoted_run) =
       [BlockquoteOpen, Chunk ''<p>'', Chunk ''quoted'', Chunk (''</p>'' @ [newline]), BlockquoteClose]
   \<and> count_list (snd (projr quoted_run)) BlockquoteOpen
       = count_list (snd (projr quoted_run)) BlockquoteClose"
proof -
  have e: "quoted_run = Inr (fst (projr quoted_run), snd (projr quoted_run))" by code_simp
  have v: "snd (projr quoted_run) =
       [BlockquoteOpen, Chunk ''<p>'', Chunk ''quoted'', Chunk (''</p>'' @ [newline]), BlockquoteClose]"
    by code_simp
  have c: "count_list (snd (projr quoted_run)) BlockquoteOpen
       = count_list (snd (projr quoted_run)) BlockquoteClose"
  proof -
    have "process_lines (\<lambda>t. []) (BlockParser_init (Wikidot_init [] [] [])) [''> quoted'']
          = Inr (fst (projr quoted_run), snd (projr quoted_run))"
      using e by (simp only: quoted_run_def)
    from blockquote_tags_balanced[OF this] show ?thesis .
  qed
  from e v c show ?thesis by blast
qed


section \<open>An end marker of a div with no div open\<close>

lemma div_start_on_end_marker: "search RX_DIV_START ''[[/div]]'' = None"
  by code_simp

lemma div_end_on_end_marker: "search RX_DIV_END ''[[/div]]'' = Some []"
  by code_simp

lemma close_current_block_cases:
  "close_current_block addr bp =
     (case current_block bp of
        None \<Rightarrow> Inr (bp, [])
      | Some b \<Rightarrow>
          (case close addr (wikidot bp) b of
             Inl e \<Rightarrow> Inl e
           | Inr ss \<Rightarrow> Inr (bp\<lparr>current_block := None\<rparr>, map Chunk ss)))"
proof (cases "current_block bp")
  case None
  then have "bp\<lparr>current_block := None\<rparr> = bp" by simp
  with None show ?thesis by (simp add: close_current_block_def)
next
  case (Some b)
  then show ?thesis
    by (cases "close addr (wikidot bp) b") (simp_all add: close_current_block_def)
qed

text \<open>
  C10.  With no div open, the line \<open>[[/div]]\<close> closes the current block and nothing
  else.  With no block open the state is unchanged and nothing is written.  With a block
  open, the block is rendered by its \<open>close\<close>; what is written is the text that \<open>close\<close>
  returned, the block is forgotten, and an error comes only from rendering the block.
  In each case \<open>check_for_div\<close> returns \<open>True\<close>, so that the line is skipped, no end tag of
  a div is written, and the stack stays empty.
\<close>

theorem end_div_on_empty_stack:
  assumes "divs bp = []"
  shows "check_for_div addr bp ''[[/div]]'' =
           (case current_block bp of
              None \<Rightarrow> Inr (bp, [], True)
            | Some b \<Rightarrow>
                (case close addr (wikidot bp) b of
                   Inl e \<Rightarrow> Inl e
                 | Inr ss \<Rightarrow> Inr (bp\<lparr>current_block := None\<rparr>, map Chunk ss, True)))
         \<and> (\<forall>bp' out r. check_for_div addr bp ''[[/div]]'' = Inr (bp', out, r) \<longrightarrow>
               r \<and> current_block bp' = None \<and> divs bp' = [] \<and> DivClose \<notin> set out)"
proof -
  have eq: "check_for_div addr bp ''[[/div]]'' =
           (case current_block bp of
              None \<Rightarrow> Inr (bp, [], True)
            | Some b \<Rightarrow>
                (case close addr (wikidot bp) b of
                   Inl e \<Rightarrow> Inl e
                 | Inr ss \<Rightarrow> Inr (bp\<lparr>current_block := None\<rparr>, map Chunk ss, True)))"
    using assms
    by (simp add: check_for_div_def div_start_on_end_marker div_end_on_end_marker
          close_current_block_cases split: option.splits sum.splits)
  show ?thesis
  proof (intro conjI allI impI)
    show "check_for_div addr bp ''[[/div]]'' =
           (case current_block bp of
              None \<Rightarrow> Inr (bp, [], True)
            | Some b \<Rightarrow>
                (case close addr (wikidot bp) b of
                   Inl e \<Rightarrow> Inl e
                 | Inr ss \<Rightarrow> Inr (bp\<lparr>current_block := None\<rparr>, map Chunk ss, True)))"
      by (rule eq)
  next
    fix bp' out r
    assume a: "check_for_div addr bp ''[[/div]]'' = Inr (bp', out, r)"
    with eq assms show "r" "current_block bp' = None" "divs bp' = []" "DivClose \<notin> set out"
      by (auto split: option.splits sum.splits)
  qed
qed

text \<open>
  The line \<open>[[/div]]\<close> after the line \<open>hello\<close>: the paragraph is open, and it is written.
\<close>

theorem end_div_on_empty_stack_witness:
  "divs open_paragraph_state = []
   \<and> map_option block_cls (current_block open_paragraph_state) = Some Paragraph
   \<and> check_for_div (\<lambda>t. []) open_paragraph_state ''[[/div]]''
       = Inr (open_paragraph_state\<lparr>current_block := None\<rparr>,
              [Chunk ''<p>'', Chunk ''hello'', Chunk (''</p>'' @ [newline])], True)"
proof -
  have d: "divs open_paragraph_state = []" by code_simp
  have b: "map_option block_cls (current_block open_paragraph_state) = Some Paragraph" by code_simp
  have c: "(case current_block open_paragraph_state of
              None \<Rightarrow> Inr (open_paragraph_state, [], True)
            | Some b \<Rightarrow>
                (case close (\<lambda>t. []) (wikidot open_paragraph_state) b of
                   Inl e \<Rightarrow> Inl e
                 | Inr ss \<Rightarrow> Inr (open_paragraph_state\<lparr>current_block := None\<rparr>, map Chunk ss, True)))
           = Inr (open_paragraph_state\<lparr>current_block := None\<rparr>,
              [Chunk ''<p>'', Chunk ''hello'', Chunk (''</p>'' @ [newline])], True)"
    by code_simp
  from end_div_on_empty_stack[OF d, of "\<lambda>t. []"] c
  have "check_for_div (\<lambda>t. []) open_paragraph_state ''[[/div]]''
       = Inr (open_paragraph_state\<lparr>current_block := None\<rparr>,
              [Chunk ''<p>'', Chunk ''hello'', Chunk (''</p>'' @ [newline])], True)"
    by (simp only:)
  with d b show ?thesis by (intro conjI)
qed

section \<open>Lines of quote markers only\<close>

lemma search_from_Bol: "bef \<noteq> [] \<Longrightarrow> search_from (Seq Bol r) bef s = None"
  by (induction s arbitrary: bef) (simp_all add: match_at_def)

lemma search_Bol: "search (Seq Bol r) s = match_at (Seq Bol r) [] s"
  by (cases s) (simp_all add: search_def search_from_Bol split: option.splits)

lemma greedy_chr_all:
  "rest st = replicate m c \<Longrightarrow> m \<le> k \<Longrightarrow>
   \<exists>tl. star_ms True (ms (Chr c)) k st = st\<lparr>consumed := replicate m c @ consumed st, rest := []\<rparr> # tl"
proof (induction m arbitrary: st k)
  case 0
  then show ?case by (cases k) (auto simp: step_char_def Let_def)
next
  case (Suc m)
  then obtain k' where k: "k = Suc k'" "m \<le> k'" by (cases k) auto
  let ?st1 = "st\<lparr>consumed := c # consumed st, rest := replicate m c\<rparr>"
  have f: "ms (Chr c) st = [?st1]" using Suc.prems by (simp add: step_char_def)
  from Suc.IH[of ?st1 k'] k obtain tl where
    t: "star_ms True (ms (Chr c)) k' ?st1 = ?st1\<lparr>consumed := replicate m c @ consumed ?st1, rest := []\<rparr> # tl"
    by auto
  have "replicate m c @ c # consumed st = replicate (Suc m) c @ consumed st"
    by (simp add: replicate_append_same)
  with t f k Suc.prems show ?case by (simp add: Let_def)
qed

lemma RX_BLOCKQUOTE_markers:
  assumes "0 < n"
  shows "search RX_BLOCKQUOTE (replicate n CHR ''>'') =
         Some [(''content'', Some []), (''greater_than_signs'', Some (replicate n CHR ''>'')), (''br'', None)]"
proof -
  obtain m where n: "n = Suc m" using assms by (cases n) auto
  let ?g0 = "[(''greater_than_signs'', None), (''content'', None), (''br'', None)] :: match"
  let ?st0 = "\<lparr>consumed = [], rest = replicate n CHR ''>'', groups = ?g0\<rparr>"
  let ?st1 = "\<lparr>consumed = [CHR ''>''], rest = replicate m CHR ''>'', groups = ?g0\<rparr>"
  have g: "map (\<lambda>n. (n, None)) (group_names RX_BLOCKQUOTE) = ?g0" by code_simp
  from greedy_chr_all[of ?st1 m "CHR ''>''" m] obtain tl where
    t: "star_ms True (ms (Chr CHR ''>'')) m ?st1
        = \<lparr>consumed = replicate m CHR ''>'' @ [CHR ''>''], rest = [], groups = ?g0\<rparr> # tl" by auto
  have "\<exists>tl'. ms RX_BLOCKQUOTE ?st0 =
     \<lparr>consumed = replicate m CHR ''>'' @ [CHR ''>''], rest = [],
      groups = [(''content'', Some []), (''greater_than_signs'', Some (replicate n CHR ''>'')), (''br'', None)]\<rparr> # tl'"
    using t n
    by (simp add: RX_BLOCKQUOTE_def plus_def br_group_def lit_def ws_def step_char_def bind_group_def)
  then show ?thesis
    unfolding RX_BLOCKQUOTE_def seqs.simps search_Bol
    unfolding RX_BLOCKQUOTE_def[symmetric, unfolded seqs.simps]
    by (auto simp: match_at_def g)
qed

lemma rstrip_markers:
  assumes "0 < n" and "\<forall>c \<in> set sp. is_space c"
  shows "rstrip (replicate n CHR ''>'' @ sp) = replicate n CHR ''>''"
proof -
  have "\<not> is_space CHR ''>''" by (simp add: is_space_def)
  then have "dropWhile is_space (replicate n CHR ''>'') = replicate n CHR ''>''"
    using assms(1) by (cases n) auto
  moreover have "dropWhile is_space (rev sp @ replicate n CHR ''>'') = dropWhile is_space (replicate n CHR ''>'')"
    using assms(2) by (intro dropWhile_append2) auto
  ultimately show ?thesis by (simp add: rstrip_def)
qed

lemma analyze_empty: "analyze_line [] cb = Inr (BLOCK_TYPE_EMPTY, [(''content'', Some []), (''br'', None)])"
proof -
  have "search RX_UL [] = None" "search RX_OL [] = None" "search RX_HN [] = None"
    "search RX_HR [] = None" "search RX_TABLE [] = None"
    "search RX_EMPTY [] = Some [(''content'', Some []), (''br'', None)]"
    by code_simp+
  then show ?thesis by (simp add: analyze_line_def)
qed

lemma no_div_empty: "search RX_DIV_START [] = None" "search RX_DIV_END [] = None"
  by code_simp+

lemma empty_line_in_quote:
  assumes "adjust_blockquote_level addr bp (rstrip raw) = Inr (bp0, out0, [])"
    and "0 < bq_level bp0"
    and "\<not> is_instance (current_block bp0) Code"
    and "\<not> is_instance (current_block bp0) Math"
  shows "process_line addr bp lineno raw = Inr (bp0, out0, False)"
proof -
  have toc: "[] \<noteq> TOC_LITERAL" by (simp add: TOC_LITERAL_def)
  have d: "check_for_div addr bp0 [] = Inr (bp0, [], False)"
    by (simp add: check_for_div_def no_div_empty)
  have t: "block_type_and_match addr bp0 [] =
             Inr (bp0, [], Some (BLOCK_TYPE_EMPTY, [(''content'', Some []), (''br'', None)]))"
    using assms(2,3,4)
    by (cases "current_block bp0") (auto simp: block_type_and_match_def is_instance_def analyze_empty)
  show ?thesis using assms(2) toc by (simp add: process_line_def assms(1) d t)
qed

text \<open>
  C9, as the code has it.  While the open block is not a fenced one, a line of \<open>n\<close> quote
  markers (\<open>n\<close> at least 1, whitespace allowed after them) never reaches a block.  When
  \<open>n\<close> is the blockquote level the line is skipped entirely: the state is unchanged, the
  open block stays open, nothing is written.  When \<open>n\<close> is another number, the open
  block is rendered by its \<open>close\<close> and forgotten, the blockquote tags for the difference
  are written after it (opening tags when the level rises, closing tags when it falls),
  the level becomes \<open>n\<close>, and then the line is skipped; an error comes only from rendering
  the block.
\<close>

theorem marker_only_line_skipped:
  assumes "0 < n"
    and "\<not> is_instance (current_block bp) Code"
    and "\<not> is_instance (current_block bp) Math"
    and "\<forall>c \<in> set sp. is_space c"
  shows "process_line addr bp lineno (replicate n CHR ''>'' @ sp) =
     (if n = bq_level bp then Inr (bp, [], False)
      else case current_block bp of
             None \<Rightarrow>
               Inr (bp\<lparr>bq_level := n\<rparr>,
                    (if bq_level bp < n then replicate (n - bq_level bp) BlockquoteOpen
                     else replicate (bq_level bp - n) BlockquoteClose),
                    False)
           | Some b \<Rightarrow>
               (case close addr (wikidot bp) b of
                  Inl e \<Rightarrow> Inl e
                | Inr ss \<Rightarrow>
                    Inr (bp\<lparr>current_block := None, bq_level := n\<rparr>,
                         map Chunk ss
                         @ (if bq_level bp < n then replicate (n - bq_level bp) BlockquoteOpen
                            else replicate (bq_level bp - n) BlockquoteClose),
                         False)))"
proof -
  let ?raw = "replicate n CHR ''>'' @ sp"
  let ?tags = "if bq_level bp < n then replicate (n - bq_level bp) BlockquoteOpen
               else replicate (bq_level bp - n) BlockquoteClose"
  have r: "rstrip ?raw = replicate n CHR ''>''"
    by (rule rstrip_markers[OF assms(1,4)])
  show ?thesis
  proof (cases "n = bq_level bp")
    case True
    have "adjust_blockquote_level addr bp (rstrip ?raw) = Inr (bp, [], [])"
      unfolding r using assms(1,2) True
      by (simp add: adjust_blockquote_level_def RX_BLOCKQUOTE_markers group_def group_opt_def
          blockquote_tags_def)
    moreover from True assms(1) have "0 < bq_level bp" by simp
    ultimately have "process_line addr bp lineno ?raw = Inr (bp, [], False)"
      using assms(2,3) by (rule empty_line_in_quote)
    with True show ?thesis by simp
  next
    case False
    then have tg: "blockquote_tags (bq_level bp) n = ?tags"
      by (auto simp: blockquote_tags_def)
    show ?thesis
    proof (cases "current_block bp")
      case None
      have "adjust_blockquote_level addr bp (rstrip ?raw) = Inr (bp\<lparr>bq_level := n\<rparr>, ?tags, [])"
        unfolding r tg [symmetric] using assms(1,2) False None
        by (simp add: adjust_blockquote_level_def RX_BLOCKQUOTE_markers group_def group_opt_def
            close_current_block_cases)
      moreover have "0 < bq_level (bp\<lparr>bq_level := n\<rparr>)"
        "\<not> is_instance (current_block (bp\<lparr>bq_level := n\<rparr>)) Code"
        "\<not> is_instance (current_block (bp\<lparr>bq_level := n\<rparr>)) Math"
        using assms(1,2,3) by simp_all
      ultimately have "process_line addr bp lineno ?raw = Inr (bp\<lparr>bq_level := n\<rparr>, ?tags, False)"
        by (rule empty_line_in_quote)
      with False None show ?thesis by simp
    next
      case (Some b)
      show ?thesis
      proof (cases "close addr (wikidot bp) b")
        case (Inl e)
        with assms(1,2) False Some have "process_line addr bp lineno ?raw = Inl e"
          by (simp add: process_line_def r adjust_blockquote_level_def RX_BLOCKQUOTE_markers
              group_def group_opt_def close_current_block_cases)
        with False Some Inl show ?thesis by simp
      next
        case (Inr ss)
        let ?bp1 = "bp\<lparr>current_block := None, bq_level := n\<rparr>"
        have "adjust_blockquote_level addr bp (rstrip ?raw) = Inr (?bp1, map Chunk ss @ ?tags, [])"
          unfolding r tg [symmetric] using assms(1,2) False Some Inr
          by (simp add: adjust_blockquote_level_def RX_BLOCKQUOTE_markers group_def group_opt_def
              close_current_block_cases)
        moreover have "0 < bq_level ?bp1" "\<not> is_instance (current_block ?bp1) Code"
          "\<not> is_instance (current_block ?bp1) Math"
          using assms(1) by (simp_all add: is_instance_def)
        ultimately have "process_line addr bp lineno ?raw = Inr (?bp1, map Chunk ss @ ?tags, False)"
          by (rule empty_line_in_quote)
        with False Some Inr show ?thesis by simp
      qed
    qed
  qed
qed

text \<open>
  At level 1 with a paragraph open: the line of one marker, and the line of three.
\<close>

theorem marker_only_line_skipped_witness:
  "\<not> is_instance (current_block quoted_state) Code
   \<and> \<not> is_instance (current_block quoted_state) Math
   \<and> is_space CHR '' ''
   \<and> bq_level quoted_state = 1
   \<and> map_option block_cls (current_block quoted_state) = Some Paragraph
   \<and> process_line (\<lambda>t. []) quoted_state 2 ''> '' = Inr (quoted_state, [], False)
   \<and> process_line (\<lambda>t. []) quoted_state 2 ''>>> ''
       = Inr (quoted_state\<lparr>current_block := None, bq_level := 3\<rparr>,
              [Chunk ''<p>'', Chunk ''a'', Chunk (''</p>'' @ [newline]), BlockquoteOpen, BlockquoteOpen],
              False)"
proof -
  have h: "\<not> is_instance (current_block quoted_state) Code"
    "\<not> is_instance (current_block quoted_state) Math"
    by code_simp+
  have l: "bq_level quoted_state = 1"
    "map_option block_cls (current_block quoted_state) = Some Paragraph"
    by code_simp+
  have sp: "is_space CHR '' ''" by (simp add: is_space_def)
  then have bs: "\<forall>c \<in> set '' ''. is_space c" by simp
  have p1: "0 < (1::nat)" and p3: "0 < (3::nat)" by simp_all
  have r1: "replicate 1 CHR ''>'' @ '' '' = ''> ''" by simp
  have r3: "replicate 3 CHR ''>'' @ '' '' = ''>>> ''" by (simp add: numeral_3_eq_3)
  have c1: "(if 1 = bq_level quoted_state then Inr (quoted_state, [], False)
      else case current_block quoted_state of
             None \<Rightarrow>
               Inr (quoted_state\<lparr>bq_level := 1\<rparr>,
                    (if bq_level quoted_state < 1 then replicate (1 - bq_level quoted_state) BlockquoteOpen
                     else replicate (bq_level quoted_state - 1) BlockquoteClose),
                    False)
           | Some b \<Rightarrow>
               (case close (\<lambda>t. []) (wikidot quoted_state) b of
                  Inl e \<Rightarrow> Inl e
                | Inr ss \<Rightarrow>
                    Inr (quoted_state\<lparr>current_block := None, bq_level := 1\<rparr>,
                         map Chunk ss
                         @ (if bq_level quoted_state < 1 then replicate (1 - bq_level quoted_state) BlockquoteOpen
                            else replicate (bq_level quoted_state - 1) BlockquoteClose),
                         False)))
         = Inr (quoted_state, [], False)"
    by (simp add: l)
  have c3: "(if 3 = bq_level quoted_state then Inr (quoted_state, [], False)
      else case current_block quoted_state of
             None \<Rightarrow>
               Inr (quoted_state\<lparr>bq_level := 3\<rparr>,
                    (if bq_level quoted_state < 3 then replicate (3 - bq_level quoted_state) BlockquoteOpen
                     else replicate (bq_level quoted_state - 3) BlockquoteClose),
                    False)
           | Some b \<Rightarrow>
               (case close (\<lambda>t. []) (wikidot quoted_state) b of
                  Inl e \<Rightarrow> Inl e
                | Inr ss \<Rightarrow>
                    Inr (quoted_state\<lparr>current_block := None, bq_level := 3\<rparr>,
                         map Chunk ss
                         @ (if bq_level quoted_state < 3 then replicate (3 - bq_level quoted_state) BlockquoteOpen
                            else replicate (bq_level quoted_state - 3) BlockquoteClose),
                         False)))
         = Inr (quoted_state\<lparr>current_block := None, bq_level := 3\<rparr>,
              [Chunk ''<p>'', Chunk ''a'', Chunk (''</p>'' @ [newline]), BlockquoteOpen, BlockquoteOpen],
              False)"
    by code_simp
  note w1 = trans [OF marker_only_line_skipped [OF p1 h bs, of "\<lambda>t. []" 2] c1, unfolded r1]
  note w3 = trans [OF marker_only_line_skipped [OF p3 h bs, of "\<lambda>t. []" 2] c3, unfolded r3]
  show ?thesis by (intro conjI) (rule h sp l w1 w3)+
qed

text \<open>
  C9 as stated fails for a line with another number of markers: at level 1 with a
  paragraph open, the line \<open>>>\<close> closes the paragraph, writes it and a blockquote tag,
  and raises the level to 2.
\<close>

theorem marker_only_line_counterexample:
  "ebind (process_line (\<lambda>t. []) quoted_state 2 ''>>'')
     (\<lambda>(bp', out, reached_end). Inr (bq_level quoted_state, bq_level bp', current_block bp' = None, out))
   = Inr (1, 2, True, [Chunk ''<p>'', Chunk ''a'', Chunk (''</p>'' @ [newline]), BlockquoteOpen])"
  by code_simp

section \<open>The continuation flag\<close>

lemma RX_BLOCKQUOTE_unquoted:
  assumes "\<not> startswith s ''>''"
  shows "search RX_BLOCKQUOTE s = None"
proof -
  have "ms (Chr CHR ''>'') \<lparr>consumed = [], rest = s, groups = g\<rparr> = []" for g
    using assms by (cases s) (auto simp: step_char_def startswith_def)
  then show ?thesis
    unfolding RX_BLOCKQUOTE_def seqs.simps search_Bol
    by (simp add: match_at_def plus_def)
qed

lemma adjust_continued:
  assumes "adjust_blockquote_level addr bp line = Inr (bp', out, line')"
  shows "continued_line bp' = continued_line bp"
proof (cases "is_instance (current_block bp) Code")
  case True
  with assms show ?thesis by (simp add: adjust_blockquote_level_def)
next
  case False
  obtain n l where nl: "(case search RX_BLOCKQUOTE line of
                  Some md \<Rightarrow> (length (group md ''greater_than_signs''), group md ''content'')
                | None \<Rightarrow> (0, line)) = (n, l)" by fastforce
  show ?thesis
  proof (cases "n \<noteq> bq_level bp")
    case True
    with assms False nl obtain bp1 out1 where
      c: "close_current_block addr bp = Inr (bp1, out1)" and r: "bp' = bp1\<lparr>bq_level := n\<rparr>"
      by (auto simp: adjust_blockquote_level_def ebind_Inr)
    from close_current_block_Inr[OF c] r show ?thesis by simp
  next
    case False
    with assms \<open>\<not> is_instance (current_block bp) Code\<close> nl show ?thesis
      by (auto simp: adjust_blockquote_level_def)
  qed
qed

lemma adjust_line_kept:
  assumes "adjust_blockquote_level addr bp line = Inr (bp', out, line')"
    and "is_instance (current_block bp) Code \<or> \<not> startswith line ''>''"
  shows "line' = line"
proof (cases "is_instance (current_block bp) Code")
  case True
  with assms show ?thesis by (simp add: adjust_blockquote_level_def)
next
  case False
  with assms(2) have "search RX_BLOCKQUOTE line = None" by (simp add: RX_BLOCKQUOTE_unquoted)
  with assms(1) False show ?thesis
    by (auto simp: adjust_blockquote_level_def ebind_Inr split: if_splits)
qed

lemma check_for_div_continued:
  assumes "check_for_div addr bp line = Inr (bp', out, r)"
  shows "continued_line bp' = continued_line bp"
proof (cases "search RX_DIV_START line")
  case (Some md)
  obtain d tg where dt: "Div_init md = (d, tg)" by (cases "Div_init md")
  with Some assms obtain bp1 out1 where c: "close_current_block addr bp = Inr (bp1, out1)"
    and r: "bp' = bp1\<lparr>divs := d # divs bp1\<rparr>"
    by (auto simp: check_for_div_def ebind_Inr)
  from close_current_block_Inr[OF c] r show ?thesis by simp
next
  case None
  show ?thesis
  proof (cases "search RX_DIV_END line")
    case (Some md)
    from assms None Some have e: "ebind (close_current_block addr bp)
            (\<lambda>(bp1, out1). case divs bp1 of
                 d # ds \<Rightarrow> Inr (bp1\<lparr>divs := ds\<rparr>, out1 @ Div_close d, True)
               | [] \<Rightarrow> Inr (bp1, out1, True)) = Inr (bp', out, r)"
      by (simp add: check_for_div_def)
    then obtain bp1 out1 where c: "close_current_block addr bp = Inr (bp1, out1)"
      and r: "(case divs bp1 of
                 d # ds \<Rightarrow> Inr (bp1\<lparr>divs := ds\<rparr>, out1 @ Div_close d, True)
               | [] \<Rightarrow> Inr (bp1, out1, True)) = (Inr (bp', out, r) :: error + (block_parser \<times> written list \<times> bool))"
      by (auto simp: ebind_Inr)
    from close_current_block_Inr[OF c] r show ?thesis
      by (cases "divs bp1") auto
  next
    case None
    with assms \<open>search RX_DIV_START line = None\<close> show ?thesis
      by (simp add: check_for_div_def)
  qed
qed

lemma fenced_continued:
  assumes "fenced_type_and_match addr bp b rs re rc bt line = Inr (bp', out, r)"
  shows "continued_line bp' = continued_line bp"
  using assms close_current_block_Inr[of addr bp]
  by (auto simp: fenced_type_and_match_def ebind_Inr split: if_splits option.splits)

lemma block_type_and_match_continued:
  assumes "block_type_and_match addr bp line = Inr (bp', out, r)"
  shows "continued_line bp' = continued_line bp"
  using assms close_current_block_Inr[of addr bp] fenced_continued[of addr bp]
  by (auto simp: block_type_and_match_def ebind_Inr split: if_splits option.splits)

lemma place_line_continued:
  assumes "place_line addr bp line lineno bt m = Inr (bp', out)"
  shows "continued_line bp' = endswith line '' _''"
  using assms by (auto simp: place_line_def ebind_Inr)

text \<open>
  C1, as the code has it.  A round of the loop that leaves through \<open>continue\<close> keeps
  \<open>continued_line\<close>, whatever the line is.  A round that runs to its end, for a line that
  starts with no quote marker or that comes while a code block is open (so that the line
  is taken as it is), sets \<open>continued_line\<close> to whether the raw line, stripped on the
  right, ends with a space and an underscore.
\<close>

theorem continued_line_recomputed:
  assumes "process_line addr bp lineno raw = Inr (bp', out, reached_end)"
  shows "(\<not> reached_end \<longrightarrow> continued_line bp' = continued_line bp)
         \<and> (reached_end \<and> (is_instance (current_block bp) Code \<or> \<not> startswith (rstrip raw) ''>'')
              \<longrightarrow> continued_line bp' = endswith (rstrip raw) '' _'')"
proof -
  from assms obtain bp1 out1 line where
    a: "adjust_blockquote_level addr bp (rstrip raw) = Inr (bp1, out1, line)"
    by (auto simp: process_line_def ebind_Inr)
  note A = adjust_continued[OF a]
  show ?thesis
  proof (cases "line = TOC_LITERAL \<and> parser_toc bp1 \<noteq> None")
    case True
    with assms a A show ?thesis by (auto simp: process_line_def)
  next
    case False
    with assms a obtain bp2 out2 isdiv where
      d: "check_for_div addr bp1 line = Inr (bp2, out2, isdiv)"
      by (auto simp: process_line_def ebind_Inr)
    note D = check_for_div_continued[OF d]
    show ?thesis
    proof (cases isdiv)
      case True
      with assms a d False A D show ?thesis by (auto simp: process_line_def)
    next
      case nd: False
      with assms a d False obtain bp3 out3 r where
        t: "block_type_and_match addr bp2 line = Inr (bp3, out3, r)"
        by (auto simp: process_line_def ebind_Inr)
      note T = block_type_and_match_continued[OF t]
      show ?thesis
      proof (cases r)
        case None
        with assms a d t False nd A D T show ?thesis by (auto simp: process_line_def)
      next
        case (Some btm)
        obtain bt m where btm: "btm = (bt, m)" by (cases btm)
        show ?thesis
        proof (cases "bt = BLOCK_TYPE_EMPTY \<and> bq_level bp3 > 0")
          case True
          with assms a d t False nd Some btm A D T show ?thesis by (auto simp: process_line_def)
        next
          case ne: False
          with assms a d t False nd Some btm obtain bp4 out4 where
            p: "place_line addr bp3 line lineno bt m = Inr (bp4, out4)"
            and res: "bp' = bp4" "reached_end"
            by (auto simp: process_line_def ebind_Inr)
          have "continued_line bp' = endswith (rstrip raw) '' _''"
            if h: "is_instance (current_block bp) Code \<or> \<not> startswith (rstrip raw) ''>''"
          proof -
            have "line = rstrip raw" by (rule adjust_line_kept[OF a h])
            with place_line_continued[OF p] res show ?thesis by simp
          qed
          with res show ?thesis by simp
        qed
      qed
    qed
  qed
qed

text \<open>
  The line \<open>a _\<close>, which sets the flag; the line \<open>[[/div]]\<close> after it, which is skipped
  and keeps it; and the line \<open>>\<close> at level 1, an empty line inside a blockquote, which is
  skipped and keeps it.
\<close>

theorem continued_line_recomputed_witness:
  "continued_run = Inr (fst (projr continued_run), fst (snd (projr continued_run)), True)
   \<and> \<not> startswith (rstrip ''a _'') ''>''
   \<and> endswith (rstrip ''a _'') '' _''
   \<and> continued_line (fst (projr continued_run))
   \<and> skipped_div_run = Inr (fst (projr skipped_div_run), fst (snd (projr skipped_div_run)), False)
   \<and> continued_line (fst (projr skipped_div_run))
   \<and> skipped_quote_run = Inr (fst (projr skipped_quote_run), fst (snd (projr skipped_quote_run)), False)
   \<and> startswith (rstrip ''>'') ''>''
   \<and> continued_line (fst (projr skipped_quote_run)) = continued_line quoted_state"
proof -
  have e1: "continued_run = Inr (fst (projr continued_run), fst (snd (projr continued_run)), True)"
    by code_simp
  have h1: "\<not> startswith (rstrip ''a _'') ''>''" "endswith (rstrip ''a _'') '' _''"
    by code_simp+
  have e2: "skipped_div_run
            = Inr (fst (projr skipped_div_run), fst (snd (projr skipped_div_run)), False)"
    by code_simp
  have e3: "skipped_quote_run
            = Inr (fst (projr skipped_quote_run), fst (snd (projr skipped_quote_run)), False)"
    by code_simp
  have h3: "startswith (rstrip ''>'') ''>''" by code_simp
  have "process_line (\<lambda>t. []) (BlockParser_init (Wikidot_init [] [] [])) 1 ''a _''
        = Inr (fst (projr continued_run), fst (snd (projr continued_run)), True)"
    using e1 by (simp only: continued_run_def)
  from continued_line_recomputed[OF this] h1
  have c1: "continued_line (fst (projr continued_run))" by simp
  have "process_line (\<lambda>t. []) (fst (projr continued_run)) 2 ''[[/div]]''
        = Inr (fst (projr skipped_div_run), fst (snd (projr skipped_div_run)), False)"
    using e2 by (simp only: skipped_div_run_def)
  from continued_line_recomputed[OF this] c1
  have c2: "continued_line (fst (projr skipped_div_run))" by simp
  have "process_line (\<lambda>t. []) quoted_state 2 ''>''
        = Inr (fst (projr skipped_quote_run), fst (snd (projr skipped_quote_run)), False)"
    using e3 by (simp only: skipped_quote_run_def)
  from continued_line_recomputed[OF this]
  have c3: "continued_line (fst (projr skipped_quote_run)) = continued_line quoted_state" by simp
  show ?thesis by (intro conjI) (rule e1 h1 c1 e2 c2 e3 h3 c3)+
qed

text \<open>
  C1 as stated fails twice.  The quoted line \<open>> foo _\<close> ends with the marker and leaves
  \<open>continued_line\<close> false: the flag is computed from the text that the blockquote pattern
  returns, from which the pattern has already taken the marker.  And the line
  \<open>[[/div]]\<close> after \<open>a _\<close> is skipped and leaves \<open>continued_line\<close> true.
\<close>

theorem continued_line_counterexample:
  "ebind (process_line (\<lambda>t. []) (BlockParser_init (Wikidot_init [] [] [])) 1 ''> foo _'')
     (\<lambda>(bp', out, reached_end). Inr (reached_end, continued_line bp'))
     = Inr (True, False)
   \<and> endswith (rstrip ''> foo _'') '' _''
   \<and> continued_line (fst (projr continued_run))
   \<and> ebind (process_line (\<lambda>t. []) (fst (projr continued_run)) 2 ''[[/div]]'')
       (\<lambda>(bp', out, reached_end). Inr (reached_end, continued_line bp'))
     = Inr (False, True)
   \<and> \<not> endswith (rstrip ''[[/div]]'') '' _''"
  by code_simp

section \<open>Nested color spans\<close>

lemma whitespace_no_match:
  "\<not> is_space c \<Longrightarrow> rx_match RX_WHITESPACE (c # t) = None"
  by (simp add: rx_match_def match_at_def RX_WHITESPACE_def plus_def ws_def step_char_def)

text \<open>
  C8, as the code has it.  For a string token that starts with \<open>##\<close> and is not \<open>##\<close>
  itself: with a color node open, outside a comment and outside both kinds of literal
  span, the parser raises \<open>FIXME: nested color\<close> (the step fails, and so does the loop
  over the tokens from there on, whatever follows); inside a comment the token is
  dropped and the parser is unchanged; inside a literal span the escaped token is added
  as text to the node on top of the stack, and inside an HTML-entity literal span the
  token is added as it is; none of these three raises.
\<close>

theorem nested_color_raises:
  assumes "startswith tok ''##''" and "tok \<noteq> ''##''"
  shows "(color p \<and> \<not> comment p \<and> \<not> escape_literal p \<and> \<not> no_escape_literal p \<longrightarrow>
            parse_token w toks i (TStr tok) p = Inl NestedColor
            \<and> parse_loop w toks i (TStr tok # toks') p = Inl NestedColor)
         \<and> (comment p \<longrightarrow> parse_token w toks i (TStr tok) p = Inr p)
         \<and> (\<not> comment p \<and> escape_literal p \<and> nodes p \<noteq> [] \<longrightarrow>
              parse_token w toks i (TStr tok) p = Inr (with_text (html_escape tok) p))
         \<and> (\<not> comment p \<and> \<not> escape_literal p \<and> no_escape_literal p \<and> nodes p \<noteq> [] \<longrightarrow>
              parse_token w toks i (TStr tok) p = Inr (with_text tok p))"
proof -
  from assms(1) obtain t where t: "tok = CHR ''#'' # CHR ''#'' # t"
    by (cases tok; cases "tl tok") (auto simp: startswith_def)
  have ns: "\<not> is_space CHR ''#''" by (simp add: is_space_def)
  have a: "parse_token w toks i (TStr tok) p = Inl NestedColor
           \<and> parse_loop w toks i (TStr tok # toks') p = Inl NestedColor"
    if h: "color p" "\<not> comment p" "\<not> escape_literal p" "\<not> no_escape_literal p"
  proof -
    have s: "parse_str_token w toks i tok p = Inl NestedColor"
      using h(1) assms(2) whitespace_no_match[OF ns] unfolding t
      by (simp add: parse_str_token_def startswith_def)
    have "parse_token w toks i (TStr tok) p = Inl NestedColor"
      using h(2,3,4) s t by (simp add: parse_token_def)
    then show ?thesis by simp
  qed
  have b: "parse_token w toks i (TStr tok) p = Inr p" if "comment p"
    using that t by (simp add: parse_token_def)
  have c: "parse_token w toks i (TStr tok) p = Inr (with_text (html_escape tok) p)"
    if "\<not> comment p" "escape_literal p" "nodes p \<noteq> []"
    using that t
    by (cases "nodes p") (simp_all add: parse_token_def add_text_def append_child_def with_text_def)
  have d: "parse_token w toks i (TStr tok) p = Inr (with_text tok p)"
    if "\<not> comment p" "\<not> escape_literal p" "no_escape_literal p" "nodes p \<noteq> []"
    using that t
    by (cases "nodes p") (simp_all add: parse_token_def add_text_def append_child_def with_text_def)
  from a b c d show ?thesis by blast
qed

text \<open>
  The token \<open>##blue|\<close> after \<open>##red|a\<close>, then after \<open>##red|a[!--\<close>, after \<open>##red|a@@\<close> and
  after \<open>##red|a@<\<close>; and the conversion of the document \<open>##red|a##blue|b\<close>, which
  fails.
\<close>

theorem nested_color_raises_witness:
  "startswith ''##blue|'' ''##'' \<and> ''##blue|'' \<noteq> ''##''
   \<and> color red_open_parser \<and> \<not> comment red_open_parser \<and> \<not> escape_literal red_open_parser
   \<and> \<not> no_escape_literal red_open_parser
   \<and> parse_token (Wikidot_init [] [] []) [] 2 (TStr ''##blue|'') red_open_parser = Inl NestedColor
   \<and> comment red_comment_parser
   \<and> parse_token (Wikidot_init [] [] []) [] 3 (TStr ''##blue|'') red_comment_parser
       = Inr red_comment_parser
   \<and> \<not> comment red_literal_parser \<and> escape_literal red_literal_parser
   \<and> nodes red_literal_parser \<noteq> []
   \<and> parse_token (Wikidot_init [] [] []) [] 3 (TStr ''##blue|'') red_literal_parser
       = Inr (with_text (html_escape ''##blue|'') red_literal_parser)
   \<and> \<not> comment red_entity_parser \<and> \<not> escape_literal red_entity_parser
   \<and> no_escape_literal red_entity_parser \<and> nodes red_entity_parser \<noteq> []
   \<and> parse_token (Wikidot_init [] [] []) [] 3 (TStr ''##blue|'') red_entity_parser
       = Inr (with_text ''##blue|'' red_entity_parser)
   \<and> children (heap (with_text ''##blue|'' red_entity_parser) ! hd (nodes red_entity_parser))
       = [ChildStr ''##blue|'']
   \<and> to_html (\<lambda>t. []) (Wikidot_init [] [] []) [''##red|a##blue|b''] = Inl NestedColor"
proof -
  have g: "startswith ''##blue|'' ''##''" "''##blue|'' \<noteq> ''##''" by code_simp+
  have ha: "color red_open_parser" "\<not> comment red_open_parser" "\<not> escape_literal red_open_parser"
    "\<not> no_escape_literal red_open_parser" by code_simp+
  have hb: "comment red_comment_parser" by code_simp
  have hc: "\<not> comment red_literal_parser" "escape_literal red_literal_parser"
    "nodes red_literal_parser \<noteq> []" by code_simp+
  have he: "\<not> comment red_entity_parser" "\<not> escape_literal red_entity_parser"
    "no_escape_literal red_entity_parser" "nodes red_entity_parser \<noteq> []" by code_simp+
  have v: "children (heap (with_text ''##blue|'' red_entity_parser) ! hd (nodes red_entity_parser))
       = [ChildStr ''##blue|'']"
    "to_html (\<lambda>t. []) (Wikidot_init [] [] []) [''##red|a##blue|b''] = Inl NestedColor"
    by code_simp+
  note T = nested_color_raises [OF g, of _ "Wikidot_init [] [] []" "[]" _ "[]"]
  from T [of red_open_parser 2] ha
  have wa: "parse_token (Wikidot_init [] [] []) [] 2 (TStr ''##blue|'') red_open_parser
            = Inl NestedColor" by blast
  from T [of red_comment_parser 3] hb
  have wb: "parse_token (Wikidot_init [] [] []) [] 3 (TStr ''##blue|'') red_comment_parser
       = Inr red_comment_parser" by blast
  from T [of red_literal_parser 3] hc
  have wc: "parse_token (Wikidot_init [] [] []) [] 3 (TStr ''##blue|'') red_literal_parser
       = Inr (with_text (html_escape ''##blue|'') red_literal_parser)" by blast
  from T [of red_entity_parser 3] he
  have wd: "parse_token (Wikidot_init [] [] []) [] 3 (TStr ''##blue|'') red_entity_parser
       = Inr (with_text ''##blue|'' red_entity_parser)" by blast
  show ?thesis by (intro conjI) (rule g ha wa hb wb hc wc he wd v)+
qed

text \<open>
  C8 as stated fails inside a literal span.  In \<open>##red|a@@##blue|@@\<close> the token \<open>##blue|\<close>
  comes while the color node of \<open>##red|\<close> is open, but the branch of \<open>escape_literal\<close> is
  taken first: the token is added as escaped text, the color flag stays set, and the
  conversion returns a document.
\<close>

theorem nested_color_counterexample:
  "token_lex ''##red|a@@##blue|@@''
     = [TStr ''##red|'', TStr ''a'', LITERAL_START_TOKEN, TStr ''##blue|'', LITERAL_END_TOKEN]
   \<and> ebind (parse (Wikidot_init [] [] []) [TStr ''##red|'', TStr ''a'', LITERAL_START_TOKEN] InlineParser_init)
       (\<lambda>p. ebind (parse_token (Wikidot_init [] [] []) (token_lex ''##red|a@@##blue|@@'') 3
                     (TStr ''##blue|'') p)
          (\<lambda>p'. Inr (color p, escape_literal p, color p')))
     = Inr (True, True, True)
   \<and> to_html (\<lambda>t. []) (Wikidot_init [] [] []) [''##red|a@@##blue|@@'']
     = Inr (Wikidot_init [] [] [],
         ''<p>##red|a<span style='' @ dq @ ''white-space: pre-wrap;'' @ dq @ ''>##blue|</span></p>''
         @ [newline])"
  by code_simp

section \<open>Nodes that are never closed\<close>

lemma marker_shape:
  "(case cs0 of ChildStr '' '' # _ \<Rightarrow> '' '' | _ \<Rightarrow> []) @ r
     @ (case cs0 of
          [] \<Rightarrow> []
        | [c] \<Rightarrow> if c = ChildStr '' '' then [] else f c
        | c # cs \<Rightarrow> if c = ChildStr '' '' then concat (map f cs) else concat (map f (c # cs)))
   = (if cs0 \<noteq> [] \<and> hd cs0 = ChildStr '' ''
      then '' '' @ r @ concat (map f (tl cs0))
      else r @ concat (map f cs0))"
proof (cases cs0)
  case Nil
  then show ?thesis by simp
next
  case (Cons c cs)
  show ?thesis
  proof (cases "c = ChildStr '' ''")
    case True
    then show ?thesis unfolding Cons by (cases cs) simp_all
  next
    case False
    then have f0: "(case c # cs of ChildStr '' '' # _ \<Rightarrow> '' '' | _ \<Rightarrow> []) = ([] :: string)"
      by (auto split: child.splits list.splits char.splits bool.splits)
    from False show ?thesis unfolding Cons f0 by (cases cs) simp_all
  qed
qed

lemma str_node_default:
  assumes "cls (h ! i) \<notin> {Span, Literal, HTMLEntityLiteral, LineBreak}" and "\<not> closed h i"
  shows "str_node addr w h i =
     (case children (h ! i) of ChildStr '' '' # _ \<Rightarrow> '' '' | _ \<Rightarrow> []) @ raw_tag (h ! i)
     @ (case children (h ! i) of
          [] \<Rightarrow> []
        | [c] \<Rightarrow> if c = ChildStr '' '' then [] else str_child addr w h i c
        | c # cs \<Rightarrow> if c = ChildStr '' '' then concat (map (str_child addr w h i) cs)
                   else concat (map (str_child addr w h i) (c # cs)))"
  using assms unfolding str_child_def [abs_def]
  by (subst str_node.simps)
     (cases "cls (h ! i)"; simp add: Let_def cong: list.case_cong child.case_cong if_cong)

lemma str_node_Span:
  assumes "cls (h ! i) = Span"
  shows "str_node addr w h i =
        ''<'' @ open_tag (h ! i) @ ''>''
        @ rstrip (concat (map (str_child addr w h i) (children (h ! i)))) @ ''</span>''"
  using assms unfolding str_child_def [abs_def]
  by (subst str_node.simps) (simp add: Let_def)

text \<open>
  C2, as the code has it.  A node of a class that renders with \<open>Node.__str__\<close> and that
  is not closed renders as its raw marker followed by its children, with no tag; a first
  child that is the string of one space is written in front of the marker.  A node of
  class \<open>Span\<close> renders, closed or not, as its open tag, its children stripped on the
  right, and \<open></span>\<close>.
\<close>

theorem unclosed_node_renders_marker:
  "(\<not> closed h i \<and> cls (h ! i) \<notin> {Span, Literal, HTMLEntityLiteral, LineBreak} \<longrightarrow>
      str_node addr w h i =
        (if children (h ! i) \<noteq> [] \<and> hd (children (h ! i)) = ChildStr '' ''
         then '' '' @ raw_tag (h ! i) @ concat (map (str_child addr w h i) (tl (children (h ! i))))
         else raw_tag (h ! i) @ concat (map (str_child addr w h i) (children (h ! i)))))
   \<and> (cls (h ! i) = Span \<longrightarrow>
      str_node addr w h i =
        ''<'' @ open_tag (h ! i) @ ''>''
        @ rstrip (concat (map (str_child addr w h i) (children (h ! i)))) @ ''</span>'')"
  using str_node_default [of h i addr w] str_node_Span [of h i addr w]
    marker_shape [of "children (h ! i)" "raw_tag (h ! i)" "str_child addr w h i"]
  by (simp only:) blast

text \<open>The bold node of \<open>**a\<close> and the span node of \<open>[[span class="x"]]a\<close>.\<close>

theorem unclosed_node_renders_marker_witness:
  "\<not> closed (heap bold_open_parser) 1
   \<and> cls (heap bold_open_parser ! 1) = Bold
   \<and> children (heap bold_open_parser ! 1) = [ChildStr ''a'']
   \<and> str_node (\<lambda>t. []) (Wikidot_init [] [] []) (heap bold_open_parser) 1 = ''**a''
   \<and> cls (heap span_open_parser ! 1) = Span
   \<and> str_node (\<lambda>t. []) (Wikidot_init [] [] []) (heap span_open_parser) 1
       = ''<span class='' @ dq @ ''x'' @ dq @ ''>a</span>''"
proof -
  have b: "\<not> closed (heap bold_open_parser) (Suc 0)" "cls (heap bold_open_parser ! Suc 0) = Bold"
    "children (heap bold_open_parser ! Suc 0) = [ChildStr ''a'']"
    "raw_tag (heap bold_open_parser ! Suc 0) = ''**''"
    by code_simp+
  have s: "cls (heap span_open_parser ! Suc 0) = Span"
    "open_tag (heap span_open_parser ! Suc 0) = ''span class='' @ dq @ ''x'' @ dq"
    "children (heap span_open_parser ! Suc 0) = [ChildStr ''a'']"
    by code_simp+
  have r: "rstrip ''a'' = ''a''" by code_simp
  from unclosed_node_renders_marker
         [of "heap bold_open_parser" "Suc 0" "\<lambda>t. []" "Wikidot_init [] [] []"]
  have "str_node (\<lambda>t. []) (Wikidot_init [] [] []) (heap bold_open_parser) (Suc 0) = ''**a''"
    by (simp add: b str_child_def)
  moreover
  from unclosed_node_renders_marker
         [of "heap span_open_parser" "Suc 0" "\<lambda>t. []" "Wikidot_init [] [] []"]
  have "str_node (\<lambda>t. []) (Wikidot_init [] [] []) (heap span_open_parser) (Suc 0)
       = ''<span class='' @ dq @ ''x'' @ dq @ ''>a</span>''"
    by (simp add: s r str_child_def)
  ultimately show ?thesis using b s by simp
qed

text \<open>
  C2 as stated fails for a span.  After \<open>[[span class="x"]]a\<close> the span node is not
  closed; it renders with its open tag and without its raw marker, also in the converted
  document.
\<close>

theorem unclosed_span_counterexample:
  "ebind (parse (Wikidot_init [] [] []) (token_lex (''[[span class='' @ dq @ ''x'' @ dq @ '']]a''))
            InlineParser_init)
     (\<lambda>p. Inr (cls (heap p ! 1), closed (heap p) 1, raw_tag (heap p ! 1),
                str_node (\<lambda>t. []) (Wikidot_init [] [] []) (heap p) 1, str_top (\<lambda>t. []) (Wikidot_init [] [] []) p))
   = Inr (Span, False, ''[[span class='' @ dq @ ''x'' @ dq @ '']]'',
          ''<span class='' @ dq @ ''x'' @ dq @ ''>a</span>'',
          ''<span class='' @ dq @ ''x'' @ dq @ ''>a</span>'')
   \<and> to_html (\<lambda>t. []) (Wikidot_init [] [] []) [''[[span class='' @ dq @ ''x'' @ dq @ '']]a'']
     = Inr (Wikidot_init [] [] [],
            ''<p><span class='' @ dq @ ''x'' @ dq @ ''>a</span></p>'' @ [newline])"
  by code_simp

section \<open>Column spans of a table row\<close>

lemma analyze_cell_fields:
  "cell_type (analyze_cell c ts) = cell_type (analyze_cell c Table_state_init)"
  "text_align (analyze_cell c ts) = text_align (analyze_cell c Table_state_init)"
  "cell_content (analyze_cell c ts) = cell_content (analyze_cell c Table_state_init)"
  "colspan (analyze_cell c ts) = colspan ts"
  by (simp_all add: analyze_cell_def Let_def split: prod.splits option.splits)

lemma open_cell_tag_eq:
  "''<'' @ open_cell_tag ts @ ''>'' @ inner @ ''</'' @ cell_type ts @ ''>'' @ [newline]
   = cell_element (cell_type ts) (nat (colspan ts)) (text_align ts) inner"
  by (simp add: open_cell_tag_def cell_element_def)

lemma print_full_cell_out:
  assumes "print_full_cell addr w cell ts = Inr (ts1, out1)"
  shows "out1 = [rendered_cell addr w (nat (colspan ts)) cell] \<and> colspan ts1 = 1"
proof -
  let ?a = "start_cell (analyze_cell cell ts)"
  from assms obtain ts2 out where
    a: "add_cell_content w (cell_content ?a) ?a = Inr ts2"
    and e: "end_cell addr w ts2 = Inr out" and r: "ts1 = ts2\<lparr>colspan := 1\<rparr>" "out1 = out"
    by (auto simp: print_full_cell_def Let_def ebind_Inr)
  from a obtain p' where
    p: "parse_content w (cell_content (analyze_cell cell ts)) InlineParser_init = Inr p'"
    and t2: "ts2 = ?a\<lparr>cell_parser := Some p'\<rparr>"
    by (auto simp: add_cell_content_def start_cell_def ebind_Inr)
  from e t2 have "out = [''<'' @ open_cell_tag ts2 @ ''>'' @ str_top addr w p' @ ''</''
                          @ cell_type ts2 @ ''>'' @ [newline]]"
    by (simp add: end_cell_def)
  then have "out = [cell_element (cell_type ts2) (nat (colspan ts2)) (text_align ts2)
                      (str_top addr w p')]"
    by (simp only: open_cell_tag_eq)
  moreover have "cell_type ts2 = cell_type (analyze_cell cell Table_state_init)"
    "text_align ts2 = text_align (analyze_cell cell Table_state_init)"
    "colspan ts2 = colspan ts"
    using t2 analyze_cell_fields [of cell ts] by (simp_all add: start_cell_def)
  moreover have "cell_inner addr w (cell_content (analyze_cell cell Table_state_init))
                 = str_top addr w p'"
    using p analyze_cell_fields(3) [of cell ts] by (simp add: cell_inner_def)
  ultimately show ?thesis using r by (simp add: rendered_cell_def Let_def)
qed

lemma nonempty_idx_Cons:
  "nonempty_idx (c # cs) = (if c \<noteq> [] then [0] else []) @ map Suc (nonempty_idx cs)"
proof -
  have "[0..<length (c # cs)] = 0 # map Suc [0..<length cs]"
    by (simp add: upt_conv_Cons map_Suc_upt del: upt_Suc)
  then show ?thesis by (simp add: nonempty_idx_def filter_map comp_def)
qed

lemma length_nonempty_idx:
  "length (nonempty_idx cells) = length cells - length (filter (\<lambda>c. c = []) cells)"
proof (induction cells)
  case Nil
  then show ?case by (simp add: nonempty_idx_def)
next
  case (Cons c cs)
  have "length (filter (\<lambda>c. c = []) cs) \<le> length cs" by (rule length_filter_le)
  with Cons show ?case by (simp add: nonempty_idx_Cons Suc_diff_le)
qed

lemma print_cells_loop_out:
  assumes "print_cells_loop addr w cells ts = Inr (ts', out)" and "colspan ts = 1 + int k"
  shows "out = map (\<lambda>j. rendered_cell addr w
                     (1 + length (takeWhile (\<lambda>c. c = []) (rev (take j cells) @ replicate k [])))
                     (cells ! j))
                 (nonempty_idx cells)"
  using assms
proof (induction cells arbitrary: ts k out ts')
  case Nil
  then show ?case by (simp add: nonempty_idx_def)
next
  case (Cons c cs)
  show ?case
  proof (cases "c = []")
    case True
    with Cons.prems have "print_cells_loop addr w cs (ts\<lparr>colspan := colspan ts + 1\<rparr>) = Inr (ts', out)"
      by simp
    from Cons.IH [OF this, of "Suc k"] Cons.prems(2) True show ?thesis
      by (simp add: nonempty_idx_Cons comp_def replicate_append_same)
  next
    case False
    with Cons.prems obtain ts1 out1 ts2 out2 where
      f: "print_full_cell addr w c ts = Inr (ts1, out1)"
      and l: "print_cells_loop addr w cs ts1 = Inr (ts2, out2)" and o: "out = out1 @ out2"
      by (auto simp: ebind_Inr)
    from print_full_cell_out [OF f] Cons.prems(2)
    have o1: "out1 = [rendered_cell addr w (1 + k) c]" and c1: "colspan ts1 = 1"
      by (simp_all add: nat_add_distrib)
    from Cons.IH [OF l, of 0] c1 False o o1 show ?thesis
      by (simp add: nonempty_idx_Cons comp_def takeWhile_tail)
  qed
qed

lemma print_cells_out:
  assumes "print_cells addr w None cells None None ts = Inr (ts', out)"
  shows "out = map (\<lambda>j. rendered_cell addr w (1 + absorbed cells j) (cells ! j))
                 (nonempty_idx cells)"
proof -
  from assms have "print_cells_loop addr w cells (ts\<lparr>colspan := 1\<rparr>) = Inr (ts', out)"
    by (auto simp: print_cells_def ebind_Inr)
  from print_cells_loop_out [OF this, of 0] show ?thesis
    by (simp add: absorbed_def)
qed

text \<open>
  C6.  For a line that holds a full row, split into its cells at \<open>||\<close>, the row is
  written as \<open><tr>\<close>, one element for each cell that is not empty, and \<open></tr>\<close>.  The
  number of elements is the number of cells less the number of empty cells, and the
  element of a cell has the span 1 plus the number of empty cells immediately before it;
  \<open>cell_element\<close> writes the \<open>colspan\<close> attribute only when the span exceeds 1.
\<close>

theorem colspan_counts_absorbed_cells:
  assumes "search RX_FULL_ROW (group m ''content'') = Some md"
    and "cells = row_to_cells (group md ''row'')"
    and "Table_rows addr w (m # ms') False ts = Inr out"
  shows "length (nonempty_idx cells) = length cells - length (filter (\<lambda>c. c = []) cells)
         \<and> (\<exists>rest. out = [''<tr>'' @ [newline]]
                 @ map (\<lambda>j. rendered_cell addr w (1 + absorbed cells j) (cells ! j))
                     (nonempty_idx cells)
                 @ [''</tr>'' @ [newline]] @ rest)"
proof -
  from assms obtain ts1 out1 out2 where
    p: "print_cells addr w None cells None None ts = Inr (ts1, out1)"
    and o: "out = [''<tr>'' @ [newline]] @ out1 @ [''</tr>'' @ [newline]] @ out2"
    by (auto simp: Let_def ebind_Inr)
  from print_cells_out [OF p] o show ?thesis
    by (simp add: length_nonempty_idx)
qed

text \<open>The row \<open>||a||||~ b||\<close>: three cells, one empty, two elements, the second of span 2.\<close>

theorem colspan_counts_absorbed_cells_witness:
  "search RX_FULL_ROW (group row_match ''content'') = Some row_md
   \<and> row_to_cells (group row_md ''row'') = [''a'', [], ''~ b'']
   \<and> Table_rows (\<lambda>t. []) (Wikidot_init [] [] []) [row_match] False Table_state_init
       = Inr [''<tr>'' @ [newline], ''<td>a</td>'' @ [newline],
              ''<th colspan='' @ dq @ ''2'' @ dq @ ''>b</th>'' @ [newline], ''</tr>'' @ [newline]]
   \<and> length (nonempty_idx [''a'', [], ''~ b'']) = 2
   \<and> map (\<lambda>j. rendered_cell (\<lambda>t. []) (Wikidot_init [] [] [])
                (1 + absorbed [''a'', [], ''~ b''] j) ([''a'', [], ''~ b''] ! j))
         (nonempty_idx [''a'', [], ''~ b''])
       = [''<td>a</td>'' @ [newline], ''<th colspan='' @ dq @ ''2'' @ dq @ ''>b</th>'' @ [newline]]"
proof -
  have a: "search RX_FULL_ROW (group row_match ''content'') = Some row_md" by code_simp
  have b: "[''a'', [], ''~ b''] = row_to_cells (group row_md ''row'')" by code_simp
  have c: "Table_rows (\<lambda>t. []) (Wikidot_init [] [] []) [row_match] False Table_state_init
       = Inr [''<tr>'' @ [newline], ''<td>a</td>'' @ [newline],
              ''<th colspan='' @ dq @ ''2'' @ dq @ ''>b</th>'' @ [newline], ''</tr>'' @ [newline]]"
    by code_simp
  have e: "map (\<lambda>j. rendered_cell (\<lambda>t. []) (Wikidot_init [] [] [])
                (1 + absorbed [''a'', [], ''~ b''] j) ([''a'', [], ''~ b''] ! j))
         (nonempty_idx [''a'', [], ''~ b''])
       = [''<td>a</td>'' @ [newline], ''<th colspan='' @ dq @ ''2'' @ dq @ ''>b</th>'' @ [newline]]"
    by code_simp
  have f: "length [''a'', [], ''~ b''] - length (filter (\<lambda>c. c = []) [''a'', [], ''~ b'']) = 2"
    by simp
  from colspan_counts_absorbed_cells [OF a b c]
  have "length (nonempty_idx [''a'', [], ''~ b''])
        = length [''a'', [], ''~ b''] - length (filter (\<lambda>c. c = []) [''a'', [], ''~ b''])"
    by (rule conjunct1)
  with f have l: "length (nonempty_idx [''a'', [], ''~ b'']) = 2" by (simp only:)
  show ?thesis by (intro conjI) (rule a b [symmetric] c l e)+
qed

section \<open>The address of a token object in the output\<close>

text \<open>
  C7.  The line \<open>[!--@@--]@<@@>@\<close> is lexed to a comment start, a literal start, a
  comment end, an HTML-entity literal start, a literal end and an HTML-entity literal
  end.  The literal start is dropped inside the comment, so the literal end comes with no
  literal span open, inside the HTML-entity literal span, and the token object itself is
  added as text.  The node renders it with \<open>str\<close>, and the document holds the address of
  the object: two runs that place the object at two addresses write two documents.
\<close>

theorem output_holds_object_address:
  "token_lex ''[!--@@--]@<@@>@''
     = [TStr ''[!--'', LITERAL_START_TOKEN, TStr ''--]'', HTML_ENTITY_LITERAL_START_TOKEN,
        LITERAL_END_TOKEN, HTML_ENTITY_LITERAL_END_TOKEN]
   \<and> to_html (\<lambda>t. ''7f3a5c1d2e80'') (Wikidot_init [] [] []) [''[!--@@--]@<@@>@'']
     = Inr (Wikidot_init [] [] [],
            ''<p><span style='' @ dq @ ''white-space: pre-wrap;'' @ dq
            @ ''><__main__.LiteralEndToken&#32;object&#32;at&#32;0x7f3a5c1d2e80></span></p>''
            @ [newline])
   \<and> to_html (\<lambda>t. ''7f8b44c0a910'') (Wikidot_init [] [] []) [''[!--@@--]@<@@>@'']
     = Inr (Wikidot_init [] [] [],
            ''<p><span style='' @ dq @ ''white-space: pre-wrap;'' @ dq
            @ ''><__main__.LiteralEndToken&#32;object&#32;at&#32;0x7f8b44c0a910></span></p>''
            @ [newline])"
  by code_simp

end
